theory Spec2Isabelle
  imports Complex_Main "HOL-Library.Word"
begin

section \<open>Library functions the program calls\<close>

text \<open>
  The wallet command formats token amounts with \<^verbatim>\<open>math/big\<close>, \<^verbatim>\<open>fmt\<close> and
  \<^verbatim>\<open>strings\<close>. Their documented behaviour on the arguments the program passes is
  written out here; strings are byte strings, as in Go.
\<close>

subsection \<open>Decimal text of big integers\<close>

definition digit_char :: "nat \<Rightarrow> char" where
  "digit_char d = char_of (48 + d)"

definition digit_val :: "char \<Rightarrow> nat option" where
  "digit_val c = (let n = (of_char c :: nat) in if 48 \<le> n \<and> n \<le> 57 then Some (n - 48) else None)"

text \<open>\<^verbatim>\<open>(*big.Int).String()\<close> on a non-negative value: decimal digits, no leading zero.\<close>

function Nat_String :: "nat \<Rightarrow> string" where
  "Nat_String n = (if n < 10 then [digit_char n]
                   else Nat_String (n div 10) @ [digit_char (n mod 10)])"
  by pat_completeness auto
termination
  by (relation "measure id") auto

declare Nat_String.simps [simp del]

definition Int_String :: "int \<Rightarrow> string" where
  "Int_String i = (if i < 0 then CHR ''-'' # Nat_String (nat (- i)) else Nat_String (nat i))"

text \<open>The digits of a string read left to right in base ten, into an accumulator.\<close>

fun digits_value :: "nat \<Rightarrow> string \<Rightarrow> nat option" where
  "digits_value acc [] = Some acc"
| "digits_value acc (c # cs) =
     (case digit_val c of None \<Rightarrow> None | Some d \<Rightarrow> digits_value (10 * acc + d) cs)"

text \<open>
  \<^verbatim>\<open>(*big.Int).SetString(s, 10)\<close>: an optional sign, then one or more decimal digits, and
  nothing else. \<open>None\<close> is the library's failure (it returns \<^verbatim>\<open>nil, false\<close>).
\<close>

definition Int_SetString :: "string \<Rightarrow> int option" where
  "Int_SetString s =
     (let neg = (s \<noteq> [] \<and> hd s = CHR ''-'');
          ds = (if s \<noteq> [] \<and> (hd s = CHR ''-'' \<or> hd s = CHR ''+'') then tl s else s)
      in if ds = [] then None
         else (case digits_value 0 ds of
                 None \<Rightarrow> None
               | Some n \<Rightarrow> Some (if neg then - int n else int n)))"

text \<open>
  \<^verbatim>\<open>new(big.Int).Exp(x, y, nil)\<close> is \<open>x ^ y\<close>, and \<open>1\<close> when \<open>y \<le> 0\<close>.
\<close>

definition Int_Exp :: "int \<Rightarrow> int \<Rightarrow> int" where
  "Int_Exp x y = (if y \<le> 0 then 1 else x ^ nat y)"

subsection \<open>Padding and trimming\<close>

text \<open>
  \<^verbatim>\<open>fmt.Sprintf("%0*s", w, s)\<close>: \<open>s\<close> padded on the left with zeros to width \<open>w\<close>. A
  negative width taken from the argument list means left-justify to \<open>- w\<close>, and then the
  padding is spaces on the right.
\<close>

definition Sprintf_0s :: "int \<Rightarrow> string \<Rightarrow> string" where
  "Sprintf_0s w s =
     (if w < 0 then s @ replicate (nat (- w) - length s) CHR '' ''
      else replicate (nat w - length s) CHR ''0'' @ s)"

text \<open>\<^verbatim>\<open>strings.TrimRight(s, "0")\<close>.\<close>

definition TrimRight0 :: "string \<Rightarrow> string" where
  "TrimRight0 s = rev (dropWhile (\<lambda>c. c = CHR ''0'') (rev s))"

text \<open>\<^verbatim>\<open>strings.TrimPrefix(s, p)\<close>.\<close>

definition TrimPrefix :: "string \<Rightarrow> string \<Rightarrow> string" where
  "TrimPrefix s p = (if take (length p) s = p then drop (length p) s else s)"

section \<open>Amount codec\<close>

text \<open>
  What \<^verbatim>\<open>atomicToHuman\<close> can do besides returning a string: the slice
  \<^verbatim>\<open>fracStr[:2]\<close> panics when \<^verbatim>\<open>fracStr\<close> is shorter than two bytes, and the
  source ignores the result of \<^verbatim>\<open>SetString\<close>, after whose failure the library leaves
  the value of \<^verbatim>\<open>bal\<close> undefined.
\<close>

datatype fault = SliceBoundsOutOfRange | UndefinedAmount

definition atomicToHuman :: "string \<Rightarrow> int \<Rightarrow> fault + string" where
  "atomicToHuman raw decimals =
     (case Int_SetString raw of
        None \<Rightarrow> Inl UndefinedAmount
      | Some bal \<Rightarrow>
          (let divisor = Int_Exp 10 decimals;
               whole = bal div divisor;
               frac = bal mod divisor
           in if frac = 0 then Inr (Int_String whole @ ''.000000'')
              else
                (let fracStr = Sprintf_0s decimals (Int_String frac);
                     trimmed = TrimRight0 fracStr
                 in if length trimmed < 2
                    then (if length fracStr < 2 then Inl SliceBoundsOutOfRange
                          else Inr (Int_String whole @ ''.'' @ take 2 fracStr))
                    else Inr (Int_String whole @ ''.'' @ trimmed))))"

section \<open>Contract call decoder\<close>

text \<open>\<^verbatim>\<open>strings.ToLower\<close>, on ASCII text.\<close>

definition ToLower :: "string \<Rightarrow> string" where
  "ToLower s = map (\<lambda>c. let n = (of_char c :: nat)
                         in if 65 \<le> n \<and> n \<le> 90 then char_of (n + 32) else c) s"

text \<open>\<^verbatim>\<open>encoding/hex\<close>: two hexadecimal digits of either case make one byte.\<close>

definition hex_val :: "char \<Rightarrow> nat option" where
  "hex_val c =
     (let n = (of_char c :: nat)
      in if 48 \<le> n \<and> n \<le> 57 then Some (n - 48)
         else if 97 \<le> n \<and> n \<le> 102 then Some (n - 87)
         else if 65 \<le> n \<and> n \<le> 70 then Some (n - 55)
         else None)"

fun hex_DecodeString :: "string \<Rightarrow> 8 word list option" where
  "hex_DecodeString [] = Some []"
| "hex_DecodeString [c] = None"
| "hex_DecodeString (a # b # rest) =
     (case (hex_val a, hex_val b) of
        (Some h, Some l) \<Rightarrow>
          (case hex_DecodeString rest of
             None \<Rightarrow> None
           | Some bs \<Rightarrow> Some (word_of_nat (16 * h + l) # bs))
      | _ \<Rightarrow> None)"

text \<open>\<^verbatim>\<open>new(big.Int).SetBytes(b)\<close>: the bytes as a big-endian unsigned integer.\<close>

definition SetBytes :: "8 word list \<Rightarrow> int" where
  "SetBytes bs = int (foldl (\<lambda>v b. 256 * v + unat b) 0 bs)"

definition padHexLeft :: "string \<Rightarrow> string" where
  "padHexLeft s = (if length s mod 2 \<noteq> 0 then ''0'' @ s else s)"

text \<open>
  One JSON-RPC exchange, as \<^verbatim>\<open>queryUSDCBalance\<close> sees it: the POST fails, or the body
  does not unmarshal into the reply structure, or it does, giving the \<^verbatim>\<open>result\<close>
  string (empty when absent) and the message of the \<^verbatim>\<open>error\<close> object when there is
  one.
\<close>

datatype rpc_reply =
    PostFailed string
  | InvalidResponse
  | Reply string "string option"

text \<open>
  What \<^verbatim>\<open>queryUSDCBalance\<close> hands back: the error, or the pair of human balance and
  raw balance; a panic inside \<^verbatim>\<open>atomicToHuman\<close> would leave through \<open>Panicked\<close>.
\<close>

datatype balance_result =
    Panicked fault
  | Failed string
  | Balance_of string string

definition balanceOf_callData :: "string \<Rightarrow> string" where
  "balanceOf_callData walletAddr =
     ''0x70a08231'' @ Sprintf_0s 64 (TrimPrefix (ToLower walletAddr) ''0x'')"

section \<open>Balance aggregator\<close>

record networkInfo =
  ChainID :: string
  RPCURL :: string
  USDCContract :: string
  Decimals :: int
  Name :: string

text \<open>The registry, in the order of the source's map literal.\<close>

definition networks :: "(string \<times> networkInfo) list" where
  "networks =
     [(''base'',
        \<lparr>ChainID = ''eip155:8453'', RPCURL = ''https://mainnet.base.org'',
         USDCContract = ''0x833589fCD6eDb6E08f4c7C32D4f71b54bdA02913'',
         Decimals = 6, Name = ''Base''\<rparr>),
      (''base-sepolia'',
        \<lparr>ChainID = ''eip155:84532'', RPCURL = ''https://sepolia.base.org'',
         USDCContract = ''0x036CbD53842c5426634e7929541eC2318f3dCF7e'',
         Decimals = 6, Name = ''Base Sepolia''\<rparr>),
      (''avalanche'',
        \<lparr>ChainID = ''eip155:43114'', RPCURL = ''https://api.avax.network/ext/bc/C/rpc'',
         USDCContract = ''0xB97EF9Ef8734C71904D8002F8b6Bc66Dd9c48a6E'',
         Decimals = 6, Name = ''Avalanche''\<rparr>),
      (''avalanche-fuji'',
        \<lparr>ChainID = ''eip155:43113'', RPCURL = ''https://api.avax-test.network/ext/bc/C/rpc'',
         USDCContract = ''0x5425890298aed601595a70AB815c96711a31Bc65'',
         Decimals = 6, Name = ''Avalanche Fuji''\<rparr>)]"

record balanceEntry =
  Network :: string
  entry_ChainID :: string
  Asset :: string
  Balance :: string
  entry_Decimals :: int
  Raw :: string

record walletResult =
  Address :: string
  Balances :: "balanceEntry list"
  wallet_Error :: string

section \<open>Probe and payment: data model\<close>

record probeResult =
  StatusCode :: int
  PaymentRequired :: bool
  PaymentRequirements :: "string option"
  Body :: string

record payResult =
  pay_StatusCode :: int
  Accepted :: bool
  Signer :: string
  PaymentResponse :: "string option"
  pay_Body :: string

record jsonResult =
  Version :: string
  Endpoint :: string
  Method :: string
  Status :: string
  Probe :: "probeResult option"
  Payment :: "payResult option"
  Error :: string

text \<open>The zero value of \<^verbatim>\<open>jsonResult\<close>.\<close>

definition jsonResult_zero :: jsonResult where
  "jsonResult_zero =
     \<lparr>Version = [], Endpoint = [], Method = [], Status = [], Probe = None, Payment = None,
      Error = []\<rparr>"

definition ExitSuccess :: int where "ExitSuccess = 0"
definition ExitError :: int where "ExitError = 1"
definition ExitPaymentRejected :: int where "ExitPaymentRejected = 2"
definition ExitFreeRoute :: int where "ExitFreeRoute = 3"

text \<open>The parsed command line of the main command.\<close>

record flags =
  insecure :: bool
  httpMethod :: string
  showVer :: bool
  skipVerify :: bool
  data :: string
  verbose :: bool
  dryRun :: bool
  jsonOutput :: bool
  autoYes :: bool
  quiet :: bool
  outputFile :: string
  headers :: "string list"
  endpoint :: string

text \<open>
  A request as \<^verbatim>\<open>newRequest\<close> builds it from method, URL, body and the \<^verbatim>\<open>-H\<close>
  values, and a response as far as the program reads it.
\<close>

record request =
  req_method :: string
  req_url :: string
  req_data :: string
  req_headers :: "string list"

record response =
  resp_StatusCode :: int
  resp_Header :: "(string \<times> string) list"
  resp_Body :: string

definition Header_Get :: "(string \<times> string) list \<Rightarrow> string \<Rightarrow> string" where
  "Header_Get h k = (case map_of h k of None \<Rightarrow> [] | Some v \<Rightarrow> v)"

section \<open>The world outside the process\<close>

text \<open>
  Everything the program asks of its surroundings: the build's version string, the
  credential variable, whether \<^verbatim>\<open>http.NewRequest\<close> accepts method and URL, the
  answer to the plain request, the line on standard input, the signer the payment library
  makes from a key (its address, or an error), the answer to the request sent through the
  paying client, the outcome of writing a file, which byte strings are valid JSON, the
  answer to a JSON-RPC POST (URL, contract, call data), and the order in which the
  runtime enumerates the keys of the network registry.
\<close>

record world =
  build_version :: string
  EVM_PRIVATE_KEY :: string
  http_NewRequest :: "string \<Rightarrow> string \<Rightarrow> string option"
  plain_Do :: "request \<Rightarrow> string + response"
  stdin_line :: "string option"
  NewClientSignerFromPrivateKey :: "string \<Rightarrow> string + string"
  paying_Do :: "string \<Rightarrow> request \<Rightarrow> string + response"
  os_WriteFile :: "string \<Rightarrow> string \<Rightarrow> string option"
  json_Valid :: "string \<Rightarrow> bool"
  rpc_post :: "string \<Rightarrow> string \<Rightarrow> string \<Rightarrow> rpc_reply"
  range_order :: "string list"

text \<open>
  What the process does that can be seen from outside, in order. \<open>Stdout s\<close> and
  \<open>Stderr s\<close> are one line each; \<open>StdoutJSON None\<close> is the empty line that
  \<^verbatim>\<open>exitJSON\<close> prints when marshalling fails.
\<close>

datatype event =
    Stdout string
  | Stderr string
  | Prompt string
  | StdoutJSON "jsonResult option"
  | StdoutVersionJSON string
  | StdoutWalletJSON walletResult
  | DumpRequest request
  | DumpResponse response
  | PrintBase64Header string string
  | PrintPaymentSummary string
  | SendProbe request
  | ReadStdin
  | ConstructSigner string
  | SendPayment request
  | WriteFile string string
  | RpcPost string string string

section \<open>Balance query over JSON-RPC\<close>

definition queryUSDCBalance ::
  "world \<Rightarrow> string \<Rightarrow> string \<Rightarrow> string \<Rightarrow> event list \<times> balance_result"
where
  "queryUSDCBalance w rpcURL contractAddr walletAddr =
     (let callData = balanceOf_callData walletAddr
      in ([RpcPost rpcURL contractAddr callData],
          (case rpc_post w rpcURL contractAddr callData of
             PostFailed e \<Rightarrow> Failed (''rpc call failed: '' @ e)
           | InvalidResponse \<Rightarrow> Failed ''invalid rpc response''
           | Reply res err \<Rightarrow>
               (case err of
                  Some m \<Rightarrow> Failed (''rpc error: '' @ m)
                | None \<Rightarrow>
                    (let hexStr = TrimPrefix res ''0x''
                     in if hexStr = [] \<or> hexStr = ''0'' then Balance_of ''0'' ''0''
                        else
                          (case hex_DecodeString (padHexLeft hexStr) of
                             None \<Rightarrow> Failed (''invalid hex: '' @ hexStr)
                           | Some balanceBytes \<Rightarrow>
                               (let raw = Int_String (SetBytes balanceBytes)
                                in case atomicToHuman raw 6 of
                                     Inl f \<Rightarrow> Panicked f
                                   | Inr human \<Rightarrow> Balance_of human raw)))))))"

section \<open>The wallet command\<close>

text \<open>\<^verbatim>\<open>fmt.Sprintf("%-18s", s)\<close>: left-justified in eighteen columns.\<close>

definition Sprintf_left18 :: "string \<Rightarrow> string" where
  "Sprintf_left18 s = s @ replicate (18 - length s) CHR '' ''"

text \<open>\<^verbatim>\<open>strings.Join(names, ", ")\<close>.\<close>

fun Join_comma :: "string list \<Rightarrow> string" where
  "Join_comma [] = []"
| "Join_comma [x] = x"
| "Join_comma (x # y # zs) = x @ '', '' @ Join_comma (y # zs)"

text \<open>
  The registry's entries in the order the runtime enumerates its keys.
\<close>

definition range_networks :: "world \<Rightarrow> (string \<times> networkInfo) list" where
  "range_networks w =
     List.map_filter (\<lambda>name. map_option (Pair name) (map_of networks name)) (range_order w)"

definition availableNetworks :: "world \<Rightarrow> string" where
  "availableNetworks w = Join_comma (map fst (range_networks w))"

text \<open>
  The loop of \<^verbatim>\<open>runWallet\<close> over the networks to query, carrying the result and the
  events so far. The third component is the panic that ended the loop, if one did.
\<close>

fun query_loop ::
  "world \<Rightarrow> string \<Rightarrow> bool \<Rightarrow> (string \<times> networkInfo) list \<Rightarrow> walletResult \<Rightarrow> event list
     \<Rightarrow> walletResult \<times> event list \<times> fault option"
where
  "query_loop w address jsonOut [] result tr = (result, tr, None)"
| "query_loop w address jsonOut ((name, info) # rest) result tr =
     (case queryUSDCBalance w (RPCURL info) (USDCContract info) address of
        (evs, Panicked f) \<Rightarrow> (result, tr @ evs, Some f)
      | (evs, Failed err) \<Rightarrow>
          query_loop w address jsonOut rest
            (result\<lparr>Balances := Balances result @
               [\<lparr>Network = name, entry_ChainID = ChainID info, Asset = ''USDC'',
                 Balance = ''error'', entry_Decimals = 0, Raw = err\<rparr>]\<rparr>)
            (tr @ evs @
               (if \<not> jsonOut
                then [Stdout (''  '' @ Sprintf_left18 (Name info @ '' (USDC):'') @ ''  error: '' @ err)]
                else []))
      | (evs, Balance_of humanBalance raw) \<Rightarrow>
          query_loop w address jsonOut rest
            (result\<lparr>Balances := Balances result @
               [\<lparr>Network = name, entry_ChainID = ChainID info, Asset = ''USDC'',
                 Balance = humanBalance, entry_Decimals = Decimals info, Raw = raw\<rparr>]\<rparr>)
            (tr @ evs @
               (if \<not> jsonOut
                then [Stdout (''  '' @ Sprintf_left18 (Name info @ '':'') @ ''  '' @ humanBalance @ '' USDC'')]
                else [])))"

definition runWallet ::
  "world \<Rightarrow> string \<Rightarrow> string \<Rightarrow> bool \<Rightarrow> walletResult \<times> event list \<times> fault option"
where
  "runWallet w address network jsonOut =
     (let result = \<lparr>Address = address, Balances = [], wallet_Error = []\<rparr>;
          start = (if \<not> jsonOut then [Stdout (''Wallet:  '' @ address), Stdout []] else []);
          finish = (\<lambda>(result, tr, crashed).
                      (result,
                       (if crashed = None \<and> jsonOut then tr @ [StdoutWalletJSON result] else tr),
                       crashed))
      in if network \<noteq> [] then
           (case map_of networks network of
              Some info \<Rightarrow> finish (query_loop w address jsonOut [(network, info)] result start)
            | None \<Rightarrow>
                (if jsonOut then
                   (let result = result\<lparr>wallet_Error := ''unknown network: '' @ network\<rparr>
                    in (result, [StdoutWalletJSON result], None))
                 else
                   (result,
                    [Stderr (''Unknown network: '' @ network),
                     Stderr (''Available: '' @ availableNetworks w)],
                    None)))
         else finish (query_loop w address jsonOut (range_networks w) result start))"

text \<open>
  \<^verbatim>\<open>runWalletCmd\<close> after flag parsing, up to the end of the process: \<^verbatim>\<open>main\<close> returns
  after it, so the exit status is 0 unless \<^verbatim>\<open>os.Exit(1)\<close> was called, and 2 when the
  runtime ends the process on a panic.
\<close>

record wallet_outcome =
  wallet_exit :: int
  wallet_final :: walletResult
  wallet_trace :: "event list"

definition runWalletCmd :: "world \<Rightarrow> string \<Rightarrow> bool \<Rightarrow> wallet_outcome" where
  "runWalletCmd w network jsonOut =
     (let privateKey = EVM_PRIVATE_KEY w;
          none = \<lparr>Address = [], Balances = [], wallet_Error = []\<rparr>
      in if privateKey = [] then
           \<lparr>wallet_exit = 1, wallet_final = none,
            wallet_trace = [Stderr ''Error: EVM_PRIVATE_KEY is required.'',
                            Stderr ''Set it with: export EVM_PRIVATE_KEY=0x...'']\<rparr>
         else
           (case NewClientSignerFromPrivateKey w privateKey of
              Inl e \<Rightarrow>
                \<lparr>wallet_exit = 1, wallet_final = none,
                 wallet_trace = [ConstructSigner privateKey, Stderr (''Failed to create signer: '' @ e)]\<rparr>
            | Inr address \<Rightarrow>
                (case runWallet w address network jsonOut of
                   (result, tr, crashed) \<Rightarrow>
                     \<lparr>wallet_exit = (if crashed = None then 0 else 2), wallet_final = result,
                      wallet_trace = ConstructSigner privateKey # tr\<rparr>)))"

section \<open>Best-effort decoding of a payment header\<close>

text \<open>
  \<^verbatim>\<open>base64.StdEncoding.DecodeString\<close>: the standard alphabet with \<open>=\<close> padding. Carriage
  returns and line feeds are skipped; what remains must be groups of four alphabet
  characters, the last of which may end in one or two \<open>=\<close>.
\<close>

definition b64_val :: "char \<Rightarrow> nat option" where
  "b64_val c =
     (let n = (of_char c :: nat)
      in if 65 \<le> n \<and> n \<le> 90 then Some (n - 65)
         else if 97 \<le> n \<and> n \<le> 122 then Some (n - 71)
         else if 48 \<le> n \<and> n \<le> 57 then Some (n + 4)
         else if n = 43 then Some 62
         else if n = 47 then Some 63
         else None)"

definition byte_char :: "nat \<Rightarrow> char" where
  "byte_char n = char_of (n mod 256)"

fun b64_groups :: "string \<Rightarrow> string option" where
  "b64_groups [] = Some []"
| "b64_groups (a # b # c # d # rest) =
     (case (b64_val a, b64_val b) of
        (Some va, Some vb) \<Rightarrow>
          (if c = CHR ''='' then
             (if d = CHR ''='' \<and> rest = [] then Some [byte_char (4 * va + vb div 16)] else None)
           else
             (case b64_val c of
                None \<Rightarrow> None
              | Some vc \<Rightarrow>
                  (if d = CHR ''='' then
                     (if rest = []
                      then Some [byte_char (4 * va + vb div 16), byte_char (16 * vb + vc div 4)]
                      else None)
                   else
                     (case b64_val d of
                        None \<Rightarrow> None
                      | Some vd \<Rightarrow>
                          (case b64_groups rest of
                             None \<Rightarrow> None
                           | Some bs \<Rightarrow>
                               Some (byte_char (4 * va + vb div 16)
                                     # byte_char (16 * vb + vc div 4)
                                     # byte_char (64 * vc + vd) # bs))))))
      | _ \<Rightarrow> None)"
| "b64_groups _ = None"

definition base64_DecodeString :: "string \<Rightarrow> string option" where
  "base64_DecodeString s =
     b64_groups (filter (\<lambda>c. c \<noteq> char_of (13 :: nat) \<and> c \<noteq> char_of (10 :: nat)) s)"

text \<open>
  \<^verbatim>\<open>json.MarshalIndent\<close> of the result: it fails exactly when a raw message embedded in
  it is not valid JSON, and \<^verbatim>\<open>exitJSON\<close> then prints an empty line. The document is
  kept as the record it renders.
\<close>

definition raw_messages :: "jsonResult \<Rightarrow> string list" where
  "raw_messages r =
     (case Probe r of
        None \<Rightarrow> []
      | Some p \<Rightarrow> (case PaymentRequirements p of None \<Rightarrow> [] | Some d \<Rightarrow> [d]))
     @ (case Payment r of
          None \<Rightarrow> []
        | Some p \<Rightarrow> (case PaymentResponse p of None \<Rightarrow> [] | Some d \<Rightarrow> [d]))"

definition MarshalIndent :: "world \<Rightarrow> jsonResult \<Rightarrow> jsonResult option" where
  "MarshalIndent w r = (if list_all (json_Valid w) (raw_messages r) then Some r else None)"

section \<open>The main command\<close>

record outcome =
  exit_code :: int
  final :: jsonResult
  trace :: "event list"

definition os_Exit :: "int \<Rightarrow> jsonResult \<Rightarrow> event list \<Rightarrow> outcome" where
  "os_Exit code result tr = \<lparr>exit_code = code, final = result, trace = tr\<rparr>"

definition exitJSON :: "world \<Rightarrow> jsonResult \<Rightarrow> int \<Rightarrow> event list \<Rightarrow> outcome" where
  "exitJSON w result code tr = os_Exit code result (tr @ [StdoutJSON (MarshalIndent w result)])"

text \<open>The closures \<^verbatim>\<open>log\<close> and \<^verbatim>\<open>logln\<close>: silent in quiet and in JSON mode.\<close>

definition logf :: "flags \<Rightarrow> string \<Rightarrow> event list" where
  "logf fl s = (if \<not> quiet fl \<and> \<not> jsonOutput fl then [Stdout s] else [])"

definition truncate :: "string \<Rightarrow> nat \<Rightarrow> string" where
  "truncate s n = (if length s \<le> n then s else take n s)"

definition saveOutput :: "world \<Rightarrow> string \<Rightarrow> string \<Rightarrow> event list" where
  "saveOutput w file body =
     (if file = [] \<or> body = [] then []
      else WriteFile file body #
           (case os_WriteFile w file body of
              None \<Rightarrow> []
            | Some e \<Rightarrow> [Stderr (''Warning: failed to write to '' @ file @ '': '' @ e)]))"

text \<open>
  The answer to the dry-run prompt counts as yes when, after \<^verbatim>\<open>strings.TrimSpace\<close> and
  \<^verbatim>\<open>strings.ToLower\<close>, it starts with \<open>y\<close>. \<^verbatim>\<open>TrimSpace\<close> removes the white space of
  \<^verbatim>\<open>unicode.IsSpace\<close>: the six ASCII characters, and in UTF-8 the two-byte U+0085 and
  U+00A0 and the three-byte U+1680, U+2000 to U+200A, U+2028, U+2029, U+202F, U+205F and
  U+3000. Only the left end matters for a prefix. The only character that
  \<^verbatim>\<open>ToLower\<close> turns into \<open>y\<close> is the ASCII \<open>Y\<close>.
\<close>

definition is_space :: "char \<Rightarrow> bool" where
  "is_space c = (let n = (of_char c :: nat) in n = 32 \<or> (9 \<le> n \<and> n \<le> 13))"

definition is_space2 :: "char \<Rightarrow> char \<Rightarrow> bool" where
  "is_space2 a b =
     (let x = (of_char a :: nat); y = (of_char b :: nat)
      in x = 194 \<and> (y = 133 \<or> y = 160))"

definition is_space3 :: "char \<Rightarrow> char \<Rightarrow> char \<Rightarrow> bool" where
  "is_space3 a b c =
     (let x = (of_char a :: nat); y = (of_char b :: nat); z = (of_char c :: nat)
      in (x = 225 \<and> y = 154 \<and> z = 128)
         \<or> (x = 226 \<and> y = 128 \<and> ((128 \<le> z \<and> z \<le> 138) \<or> z = 168 \<or> z = 169 \<or> z = 175))
         \<or> (x = 226 \<and> y = 129 \<and> z = 159)
         \<or> (x = 227 \<and> y = 128 \<and> z = 128))"

fun TrimLeft_space :: "string \<Rightarrow> string" where
  "TrimLeft_space (a # b # c # rest) =
     (if is_space a then TrimLeft_space (b # c # rest)
      else if is_space2 a b then TrimLeft_space (c # rest)
      else if is_space3 a b c then TrimLeft_space rest
      else a # b # c # rest)"
| "TrimLeft_space [a, b] =
     (if is_space a then TrimLeft_space [b]
      else if is_space2 a b then []
      else [a, b])"
| "TrimLeft_space [a] = (if is_space a then [] else [a])"
| "TrimLeft_space [] = []"

definition affirmative :: "string \<Rightarrow> bool" where
  "affirmative line = (take 1 (ToLower (TrimLeft_space line)) = ''y'')"

text \<open>The switch on the status of the paid response, at the end of \<^verbatim>\<open>main\<close>.\<close>

definition classify_payment :: "world \<Rightarrow> flags \<Rightarrow> jsonResult \<Rightarrow> event list \<Rightarrow> int \<Rightarrow> outcome" where
  "classify_payment w fl result tr code =
     (if code = 200 then
        (let tr = tr @ logf fl ''Payment accepted!'';
             result = result\<lparr>Status := ''accepted''\<rparr>
         in if jsonOutput fl then exitJSON w result ExitSuccess tr
            else os_Exit ExitSuccess result tr)
      else if code = 402 then
        (let tr = tr @ logf fl ''Payment was rejected. Check wallet balance and facilitator logs.'';
             result = result\<lparr>Status := ''rejected''\<rparr>
         in if jsonOutput fl then exitJSON w result ExitPaymentRejected tr
            else os_Exit ExitPaymentRejected result tr)
      else
        (let tr = tr @ logf fl (''Unexpected status '' @ Int_String code @ ''.'');
             result = result\<lparr>Status := ''error'', Error := ''unexpected status '' @ Int_String code\<rparr>
         in if jsonOutput fl then exitJSON w result ExitError tr
            else os_Exit ExitError result tr))"

text \<open>
  Step 2, from the check of the credential on. The second request is built from the same
  method, URL, body and headers as the first, which \<^verbatim>\<open>http.NewRequest\<close> has accepted.
\<close>

definition payment_phase :: "world \<Rightarrow> flags \<Rightarrow> request \<Rightarrow> jsonResult \<Rightarrow> event list \<Rightarrow> outcome" where
  "payment_phase w fl req result tr =
     (let privateKey = EVM_PRIVATE_KEY w
      in if privateKey = [] then
           (let errMsg = ''EVM_PRIVATE_KEY is required for Step 2 (payment)''
            in if jsonOutput fl
               then exitJSON w (result\<lparr>Status := ''error'', Error := errMsg\<rparr>) ExitError tr
               else os_Exit ExitError result
                      (tr @ [Stderr [], Stderr (''Error: '' @ errMsg @ ''.''),
                             Stderr ''Set it with: export EVM_PRIVATE_KEY=0x...'']))
         else
           (let tr = tr @ logf fl ''--- Step 2: Request with x402 payment ---''
                        @ [ConstructSigner privateKey]
            in case NewClientSignerFromPrivateKey w privateKey of
                 Inl e \<Rightarrow>
                   (if jsonOutput fl
                    then exitJSON w (result\<lparr>Status := ''error'',
                                             Error := ''failed to create signer: '' @ e\<rparr>) ExitError tr
                    else os_Exit ExitError result (tr @ [Stderr (''Failed to create signer: '' @ e)]))
               | Inr address \<Rightarrow>
                   (let tr = tr @ logf fl (''Signer: '' @ address) @ [SendPayment req]
                    in case paying_Do w address req of
                         Inl e \<Rightarrow>
                           (if jsonOutput fl
                            then exitJSON w (result\<lparr>Status := ''error'',
                                                     Error := ''payment request failed: '' @ e\<rparr>)
                                   ExitError tr
                            else os_Exit ExitError result
                                   (tr @ [Stderr (''Payment request failed: '' @ e)]))
                       | Inr resp2 \<Rightarrow>
                           (let body2 = resp_Body resp2;
                                tr = tr @ (if verbose fl \<and> \<not> quiet fl \<and> \<not> jsonOutput fl
                                           then [DumpResponse resp2] else []);
                                pay = \<lparr>pay_StatusCode = resp_StatusCode resp2,
                                       Accepted = (resp_StatusCode resp2 = 200),
                                       Signer = address, PaymentResponse = None,
                                       pay_Body = body2\<rparr>;
                                payRespHeader = Header_Get (resp_Header resp2) ''PAYMENT-RESPONSE'';
                                pay = (if payRespHeader \<noteq> [] then
                                         (case base64_DecodeString payRespHeader of
                                            Some decoded \<Rightarrow> pay\<lparr>PaymentResponse := Some decoded\<rparr>
                                          | None \<Rightarrow> pay)
                                       else pay);
                                tr = tr @ (if payRespHeader \<noteq> [] \<and> \<not> quiet fl \<and> \<not> jsonOutput fl
                                           then [PrintBase64Header ''PAYMENT-RESPONSE'' payRespHeader]
                                           else []);
                                result = result\<lparr>Payment := Some pay\<rparr>;
                                tr = tr @ (if \<not> jsonOutput fl then
                                             logf fl (''Status: '' @ Int_String (resp_StatusCode resp2))
                                             @ (if \<not> verbose fl
                                                then logf fl (''Body: '' @ truncate body2 500) @ logf fl []
                                                else [])
                                           else []);
                                tr = tr @ saveOutput w (outputFile fl) body2
                            in classify_payment w fl result tr (resp_StatusCode resp2)))))"

text \<open>The dry-run gate between the two steps.\<close>

definition confirmation_gate ::
  "world \<Rightarrow> flags \<Rightarrow> request \<Rightarrow> string \<Rightarrow> jsonResult \<Rightarrow> event list \<Rightarrow> outcome"
where
  "confirmation_gate w fl req body result tr =
     (if dryRun fl \<and> \<not> autoYes fl then
        (if jsonOutput fl then exitJSON w (result\<lparr>Status := ''payment_required''\<rparr>) ExitSuccess tr
         else
           (let tr = tr @ [PrintPaymentSummary body, Stdout [],
                           Prompt ''Proceed with payment? [y/N] '', ReadStdin]
            in if (case stdin_line w of None \<Rightarrow> True | Some line \<Rightarrow> \<not> affirmative line)
               then os_Exit ExitSuccess result (tr @ [Stdout ''Aborted.''])
               else payment_phase w fl req result (tr @ [Stdout []])))
      else payment_phase w fl req result tr)"

text \<open>Step 1 from the arrival of the plain response on: the probe result and the branch on its status.\<close>

definition build_probe :: "response \<Rightarrow> probeResult" where
  "build_probe resp =
     (let probe = \<lparr>StatusCode = resp_StatusCode resp,
                   PaymentRequired = (resp_StatusCode resp = 402),
                   PaymentRequirements = None, Body = []\<rparr>;
          payReqHeader = Header_Get (resp_Header resp) ''PAYMENT-REQUIRED'';
          probe = (if payReqHeader \<noteq> [] then
                     (case base64_DecodeString payReqHeader of
                        Some decoded \<Rightarrow> probe\<lparr>PaymentRequirements := Some decoded\<rparr>
                      | None \<Rightarrow> probe)
                   else probe)
      in probe\<lparr>Body := resp_Body resp\<rparr>)"

definition after_probe ::
  "world \<Rightarrow> flags \<Rightarrow> request \<Rightarrow> jsonResult \<Rightarrow> event list \<Rightarrow> response \<Rightarrow> outcome"
where
  "after_probe w fl req result tr resp =
     (let body = resp_Body resp;
          code = resp_StatusCode resp;
          tr = tr @ (if verbose fl \<and> \<not> quiet fl \<and> \<not> jsonOutput fl then [DumpResponse resp] else []);
          payReqHeader = Header_Get (resp_Header resp) ''PAYMENT-REQUIRED'';
          tr = tr @ (if payReqHeader \<noteq> [] \<and> \<not> quiet fl \<and> \<not> jsonOutput fl
                     then [PrintBase64Header ''PAYMENT-REQUIRED'' payReqHeader] else []);
          tr = tr @ (if \<not> jsonOutput fl then
                       logf fl (''Status: '' @ Int_String code)
                       @ (if \<not> verbose fl
                          then logf fl (''Body: '' @ truncate body 300) @ logf fl []
                          else [])
                     else []);
          result = result\<lparr>Probe := Some (build_probe resp)\<rparr>
      in if code \<noteq> 402 then
           (let tr = tr @ logf fl ''Endpoint did not return 402 Payment Required.''
            in if code = 200 then
                 (let tr = tr @ logf fl ''The endpoint is accessible without payment (free route).''
                              @ saveOutput w (outputFile fl) body;
                      result = result\<lparr>Status := ''free''\<rparr>
                  in if jsonOutput fl then exitJSON w result ExitFreeRoute tr
                     else os_Exit ExitFreeRoute result tr)
               else
                 (let result = result\<lparr>Status := ''no_402''\<rparr>
                  in if jsonOutput fl then exitJSON w result ExitSuccess tr
                     else os_Exit ExitSuccess result tr))
         else if skipVerify fl then
           (let tr = tr @ logf fl ''--skip-verify: stopping after Step 1.'';
                result = result\<lparr>Status := ''payment_required''\<rparr>
            in if jsonOutput fl then exitJSON w result ExitSuccess tr
               else os_Exit ExitSuccess result tr)
         else confirmation_gate w fl req body result tr)"

text \<open>\<^verbatim>\<open>main\<close> for every first argument other than \<^verbatim>\<open>wallet\<close>, after flag parsing.\<close>

definition main_run :: "world \<Rightarrow> flags \<Rightarrow> outcome" where
  "main_run w fl =
     (let version = build_version w
      in if showVer fl then
           os_Exit 0 jsonResult_zero
             [if jsonOutput fl then StdoutVersionJSON version else Stdout (''x402-cli '' @ version)]
         else if endpoint fl = [] then
           (if jsonOutput fl
            then exitJSON w (jsonResult_zero\<lparr>Version := version, Status := ''error'',
                                              Error := ''URL argument is required''\<rparr>) ExitError []
            else os_Exit ExitError jsonResult_zero
                   [Stderr ''Error: URL argument is required'',
                    Stderr ''Usage: x402-cli [flags] <url>''])
         else
           (let method' = (if data fl \<noteq> [] \<and> httpMethod fl = ''GET'' then ''POST'' else httpMethod fl);
                result = \<lparr>Version = version, Endpoint = endpoint fl, Method = method',
                          Status = [], Probe = None, Payment = None, Error = []\<rparr>;
                tr = logf fl (''x402-cli '' @ version) @ logf fl (''Endpoint: '' @ endpoint fl)
                     @ logf fl (''Method:   '' @ method') @ logf fl []
                     @ logf fl ''--- Step 1: Request without payment ---'';
                req = \<lparr>req_method = method', req_url = endpoint fl, req_data = data fl,
                       req_headers = headers fl\<rparr>
            in case http_NewRequest w method' (endpoint fl) of
                 Some e \<Rightarrow>
                   (if jsonOutput fl
                    then exitJSON w (result\<lparr>Status := ''error'', Error := e\<rparr>) ExitError tr
                    else os_Exit ExitError result (tr @ [Stderr (''Error creating request: '' @ e)]))
               | None \<Rightarrow>
                   (let tr = tr @ (if verbose fl \<and> \<not> quiet fl \<and> \<not> jsonOutput fl
                                   then [DumpRequest req] else [])
                                @ [SendProbe req]
                    in case plain_Do w req of
                         Inl e \<Rightarrow>
                           (if jsonOutput fl
                            then exitJSON w (result\<lparr>Status := ''error'', Error := e\<rparr>) ExitError tr
                            else os_Exit ExitError result (tr @ [Stderr (''Error: '' @ e)]))
                       | Inr resp \<Rightarrow> after_probe w fl req result tr resp)))"

section \<open>The specification's words, as definitions\<close>

text \<open>
  The amount codec as the specification words it: divide by \<open>10 ^ D\<close>, write the
  remainder zero-padded to \<open>D\<close> digits, trim trailing zeros, but keep at least two
  fractional digits.
\<close>

definition toHuman_spec :: "int \<Rightarrow> nat \<Rightarrow> string" where
  "toHuman_spec A D =
     (let padded = replicate (D - length (Int_String (A mod 10 ^ D))) CHR ''0''
                   @ Int_String (A mod 10 ^ D);
          trimmed = TrimRight0 padded
      in Int_String (A div 10 ^ D) @ ''.'' @ trimmed @ replicate (2 - length trimmed) CHR ''0'')"

text \<open>
  Reading a human amount back: the digits before the point, plus the digits after it
  over ten to their number, as a rational.
\<close>

definition decimal_value :: "string \<Rightarrow> rat option" where
  "decimal_value s =
     (let w = takeWhile (\<lambda>c. c \<noteq> CHR ''.'') s;
          rest = dropWhile (\<lambda>c. c \<noteq> CHR ''.'') s
      in if w = [] \<or> rest = [] then None
         else (case (digits_value 0 w, digits_value 0 (tl rest)) of
                 (Some a, Some b) \<Rightarrow> Some (of_nat a + of_nat b / 10 ^ length (tl rest))
               | _ \<Rightarrow> None))"

definition rescale :: "string \<Rightarrow> nat \<Rightarrow> rat option" where
  "rescale s D = map_option (\<lambda>q. q * 10 ^ D) (decimal_value s)"

text \<open>
  The response the probe gets, when \<^verbatim>\<open>main\<close> gets as far as sending it and it is
  answered.
\<close>

definition probe_request :: "flags \<Rightarrow> request" where
  "probe_request fl =
     \<lparr>req_method = (if data fl \<noteq> [] \<and> httpMethod fl = ''GET'' then ''POST'' else httpMethod fl),
      req_url = endpoint fl, req_data = data fl, req_headers = headers fl\<rparr>"

definition probe_answer :: "world \<Rightarrow> flags \<Rightarrow> response option" where
  "probe_answer w fl =
     (if showVer fl \<or> endpoint fl = [] then None
      else (case http_NewRequest w (req_method (probe_request fl)) (endpoint fl) of
              Some e \<Rightarrow> None
            | None \<Rightarrow> (case plain_Do w (probe_request fl) of Inl e \<Rightarrow> None | Inr resp \<Rightarrow> Some resp)))"

text \<open>Which events are network calls, and which construct the signer.\<close>

fun is_network_call :: "event \<Rightarrow> bool" where
  "is_network_call (SendProbe r) = True"
| "is_network_call (SendPayment r) = True"
| "is_network_call (RpcPost u c d) = True"
| "is_network_call e = False"

fun is_signer_call :: "event \<Rightarrow> bool" where
  "is_signer_call (ConstructSigner k) = True"
| "is_signer_call e = False"

fun is_rpc_call :: "event \<Rightarrow> bool" where
  "is_rpc_call (RpcPost u c d) = True"
| "is_rpc_call e = False"

section \<open>Notions used in the statements\<close>

text \<open>
  For one network of the registry: the JSON-RPC call that \<^verbatim>\<open>queryUSDCBalance\<close> sends
  for it, what the outside answers to that call, what the query returns, and the entry, the printed line and the events that one
  turn of the loop in \<^verbatim>\<open>runWallet\<close> adds for it.
\<close>

definition network_post :: "string \<Rightarrow> string \<times> networkInfo \<Rightarrow> event" where
  "network_post address ni =
     RpcPost (RPCURL (snd ni)) (USDCContract (snd ni)) (balanceOf_callData address)"

definition network_rpc :: "world \<Rightarrow> string \<Rightarrow> string \<times> networkInfo \<Rightarrow> rpc_reply" where
  "network_rpc w address ni =
     rpc_post w (RPCURL (snd ni)) (USDCContract (snd ni)) (balanceOf_callData address)"

definition network_reply :: "world \<Rightarrow> string \<Rightarrow> string \<times> networkInfo \<Rightarrow> balance_result" where
  "network_reply w address ni =
     snd (queryUSDCBalance w (RPCURL (snd ni)) (USDCContract (snd ni)) address)"

definition network_entry :: "world \<Rightarrow> string \<Rightarrow> string \<times> networkInfo \<Rightarrow> balanceEntry" where
  "network_entry w address ni =
     (case network_reply w address ni of
        Failed err \<Rightarrow>
          \<lparr>Network = fst ni, entry_ChainID = ChainID (snd ni), Asset = ''USDC'',
           Balance = ''error'', entry_Decimals = 0, Raw = err\<rparr>
      | Balance_of humanBalance raw \<Rightarrow>
          \<lparr>Network = fst ni, entry_ChainID = ChainID (snd ni), Asset = ''USDC'',
           Balance = humanBalance, entry_Decimals = Decimals (snd ni), Raw = raw\<rparr>
      | Panicked f \<Rightarrow>
          \<lparr>Network = fst ni, entry_ChainID = ChainID (snd ni), Asset = ''USDC'',
           Balance = [], entry_Decimals = 0, Raw = []\<rparr>)"

definition network_line :: "world \<Rightarrow> string \<Rightarrow> string \<times> networkInfo \<Rightarrow> event" where
  "network_line w address ni =
     (case network_reply w address ni of
        Failed err \<Rightarrow>
          Stdout (''  '' @ Sprintf_left18 (Name (snd ni) @ '' (USDC):'') @ ''  error: '' @ err)
      | Balance_of humanBalance raw \<Rightarrow>
          Stdout (''  '' @ Sprintf_left18 (Name (snd ni) @ '':'') @ ''  '' @ humanBalance @ '' USDC'')
      | Panicked f \<Rightarrow> Stdout [])"

definition network_events :: "world \<Rightarrow> string \<Rightarrow> bool \<Rightarrow> string \<times> networkInfo \<Rightarrow> event list" where
  "network_events w address jsonOut ni =
     network_post address ni # (if \<not> jsonOut then [network_line w address ni] else [])"

text \<open>
  The dry-run gate lets the run through to Step 2: dry-run is off or auto-confirm is on,
  or the run is in text mode and the operator's answer counts as yes.
\<close>

definition gate_open :: "world \<Rightarrow> flags \<Rightarrow> bool" where
  "gate_open w fl =
     (\<not> (dryRun fl \<and> \<not> autoYes fl)
      \<or> (\<not> jsonOutput fl \<and> (case stdin_line w of None \<Rightarrow> False | Some line \<Rightarrow> affirmative line)))"

section \<open>Specimen inputs\<close>

text \<open>
  A world in which the endpoint asks for payment with a requirements header that decodes
  to \<open>{}\<close>, the paid request succeeds, the RPC endpoint of Base Sepolia times out, that
  of Avalanche answers with something that is not a reply, that of Avalanche Fuji with an
  error object, and that of Base reports a balance of 100 atomic units; plain flags; and
  four answers to the probe, the last with a header that decodes to bytes that are not
  JSON.
\<close>

definition specimen_world :: world where
  "specimen_world =
     \<lparr>build_version = ''dev'', EVM_PRIVATE_KEY = ''0x01'',
      http_NewRequest = (\<lambda>m u. None),
      plain_Do = (\<lambda>r. Inr \<lparr>resp_StatusCode = 402,
                             resp_Header = [(''PAYMENT-REQUIRED'', ''e30='')],
                             resp_Body = ''pay''\<rparr>),
      stdin_line = Some ''y'',
      NewClientSignerFromPrivateKey = (\<lambda>k. Inr ''0xAbCd''),
      paying_Do = (\<lambda>a r. Inr \<lparr>resp_StatusCode = 200, resp_Header = [], resp_Body = ''paid''\<rparr>),
      os_WriteFile = (\<lambda>p b. None),
      json_Valid = (\<lambda>s. s = ''{}''),
      rpc_post = (\<lambda>u c d. if u = ''https://sepolia.base.org'' then PostFailed ''timeout''
                           else if u = ''https://api.avax.network/ext/bc/C/rpc'' then InvalidResponse
                           else if u = ''https://api.avax-test.network/ext/bc/C/rpc''
                           then Reply [] (Some ''execution reverted'')
                           else Reply ''0x64'' None),
      range_order = [''base-sepolia'', ''base'', ''avalanche'', ''avalanche-fuji'']\<rparr>"

definition specimen_flags :: flags where
  "specimen_flags =
     \<lparr>insecure = False, httpMethod = ''GET'', showVer = False, skipVerify = False, data = [],
      verbose = False, dryRun = False, jsonOutput = False, autoYes = False, quiet = False,
      outputFile = [], headers = [], endpoint = ''http://x''\<rparr>"

definition answer_402 :: response where
  "answer_402 = \<lparr>resp_StatusCode = 402, resp_Header = [(''PAYMENT-REQUIRED'', ''e30='')],
                  resp_Body = ''pay''\<rparr>"

definition answer_402_undecodable :: response where
  "answer_402_undecodable =
     \<lparr>resp_StatusCode = 402, resp_Header = [(''PAYMENT-REQUIRED'', ''%%%'')], resp_Body = ''pay''\<rparr>"


definition answer_200 :: response where
  "answer_200 = \<lparr>resp_StatusCode = 200, resp_Header = [(''PAYMENT-REQUIRED'', ''e30='')],
                  resp_Body = ''hello''\<rparr>"

section \<open>Decimal text: parsing inverts printing\<close>

lemma digit_val_digit_char: "d < 10 \<Longrightarrow> digit_val (digit_char d) = Some d"
  by (simp add: digit_val_def digit_char_def Let_def)

lemma digit_val_zero: "digit_val CHR ''0'' = Some 0"
  by (simp add: digit_val_def)

lemma digit_val_not_sign:
  "digit_val c = Some d \<Longrightarrow> c \<noteq> CHR ''-'' \<and> c \<noteq> CHR ''+'' \<and> c \<noteq> CHR ''.''"
  by (auto simp: digit_val_def Let_def split: if_splits)

lemma digits_value_append:
  "digits_value acc (xs @ ys) =
     (case digits_value acc xs of None \<Rightarrow> None | Some a \<Rightarrow> digits_value a ys)"
  by (induction xs arbitrary: acc) (auto split: option.splits)

lemma Nat_String_small: "n < 10 \<Longrightarrow> Nat_String n = [digit_char n]"
  by (subst Nat_String.simps) simp

lemma Nat_String_big:
  "\<not> n < 10 \<Longrightarrow> Nat_String n = Nat_String (n div 10) @ [digit_char (n mod 10)]"
  by (subst Nat_String.simps) simp

lemma Nat_String_nonempty: "Nat_String n \<noteq> []"
  by (cases "n < 10") (simp_all add: Nat_String_small Nat_String_big)

lemma digits_value_Nat_String:
  "digits_value acc (Nat_String n) = Some (acc * 10 ^ length (Nat_String n) + n)"
proof (induction n arbitrary: acc rule: Nat_String.induct)
  case (1 n)
  show ?case
  proof (cases "n < 10")
    case True
    then show ?thesis
      by (simp add: Nat_String_small digit_val_digit_char)
  next
    case False
    have ih: "digits_value acc (Nat_String (n div 10)) =
            Some (acc * 10 ^ length (Nat_String (n div 10)) + n div 10)"
      using 1 [OF False] .
    have "digits_value acc (Nat_String n) =
            Some (10 * (acc * 10 ^ length (Nat_String (n div 10)) + n div 10) + n mod 10)"
      by (simp add: Nat_String_big [OF False] digits_value_append ih digit_val_digit_char)
    also have "10 * (acc * 10 ^ length (Nat_String (n div 10)) + n div 10) + n mod 10
           = acc * 10 ^ length (Nat_String n) + n"
      by (simp add: Nat_String_big [OF False] distrib_left)
    finally show ?thesis .
  qed
qed

lemma digits_value_hd:
  "digits_value acc s = Some n \<Longrightarrow> s \<noteq> [] \<Longrightarrow> \<exists>d. digit_val (hd s) = Some d"
  by (cases s) (auto split: option.splits)

lemma digits_value_all:
  "digits_value acc s = Some n \<Longrightarrow> c \<in> set s \<Longrightarrow> \<exists>d. digit_val c = Some d"
  by (induction s arbitrary: acc) (auto split: option.splits)

lemma Int_SetString_digits:
  assumes "digits_value 0 s = Some n" and "s \<noteq> []"
  shows "Int_SetString s = Some (int n)"
proof -
  from digits_value_hd [OF assms] obtain d where "digit_val (hd s) = Some d" ..
  then have "hd s \<noteq> CHR ''-''" "hd s \<noteq> CHR ''+''"
    using digit_val_not_sign by blast+
  with assms show ?thesis by (simp add: Int_SetString_def)
qed

lemma Int_SetString_Nat_String: "Int_SetString (Nat_String n) = Some (int n)"
  by (rule Int_SetString_digits) (simp_all add: digits_value_Nat_String Nat_String_nonempty)

lemma Int_SetString_Int_String: "0 \<le> i \<Longrightarrow> Int_SetString (Int_String i) = Some i"
  by (simp add: Int_String_def Int_SetString_Nat_String)

lemma digits_value_zeros: "digits_value acc (replicate k CHR ''0'') = Some (acc * 10 ^ k)"
  by (induction k arbitrary: acc) (simp_all add: digit_val_zero)

lemma length_Nat_String: "n < 10 ^ k \<Longrightarrow> 0 < k \<Longrightarrow> length (Nat_String n) \<le> k"
proof (induction n arbitrary: k rule: Nat_String.induct)
  case (1 n)
  show ?case
  proof (cases "n < 10")
    case True
    with 1(3) show ?thesis by (simp add: Nat_String_small)
  next
    case False
    obtain j where j: "k = Suc j" using 1(3) by (cases k) auto
    have j0: "0 < j"
    proof (rule ccontr)
      assume "\<not> 0 < j"
      then have "k = 1" using j by simp
      with 1(2) False show False by simp
    qed
    from 1(2) j have "n < 10 * 10 ^ j" by simp
    then have "n div 10 < 10 ^ j" by (simp add: less_mult_imp_div_less mult.commute)
    from 1(1) [OF False this j0] j show ?thesis
      by (simp add: Nat_String_big [OF False])
  qed
qed

section \<open>Trimming and padding\<close>

lemma TrimRight0_decomp: "\<exists>k. s = TrimRight0 s @ replicate k CHR ''0''"
proof -
  let ?P = "\<lambda>c. c = CHR ''0''"
  have "set (takeWhile ?P (rev s)) \<subseteq> {CHR ''0''}"
    by (auto dest: set_takeWhileD)
  then have tw: "takeWhile ?P (rev s) = replicate (length (takeWhile ?P (rev s))) CHR ''0''"
    by (simp add: replicate_length_same subset_iff)
  have "s = rev (rev s)" by simp
  also have "\<dots> = rev (takeWhile ?P (rev s) @ dropWhile ?P (rev s))" by simp
  also have "\<dots> = TrimRight0 s @ rev (takeWhile ?P (rev s))"
    by (simp only: rev_append TrimRight0_def)
  also have "rev (takeWhile ?P (rev s)) = replicate (length (takeWhile ?P (rev s))) CHR ''0''"
    by (subst tw) (simp only: rev_replicate length_replicate)
  finally show ?thesis by blast
qed

lemma TrimRight0_last: "TrimRight0 s \<noteq> [] \<Longrightarrow> last (TrimRight0 s) \<noteq> CHR ''0''"
proof -
  assume ne: "TrimRight0 s \<noteq> []"
  let ?d = "dropWhile (\<lambda>c. c = CHR ''0'') (rev s)"
  from ne have d: "?d \<noteq> []" by (simp add: TrimRight0_def)
  then have "hd ?d \<noteq> CHR ''0''" using hd_dropWhile [of "\<lambda>c. c = CHR ''0''" "rev s"] by blast
  with d show ?thesis by (simp add: TrimRight0_def last_rev)
qed

lemma length_Sprintf_0s: "0 \<le> w \<Longrightarrow> length s \<le> nat w \<Longrightarrow> length (Sprintf_0s w s) = nat w"
  by (simp add: Sprintf_0s_def)

lemma length_Sprintf_0s_ge: "0 \<le> w \<Longrightarrow> nat w \<le> length (Sprintf_0s w s)"
  by (simp add: Sprintf_0s_def)

lemma digits_value_Sprintf_0s:
  "0 \<le> w \<Longrightarrow> digits_value 0 (Sprintf_0s w (Nat_String n)) = Some n"
  by (simp add: Sprintf_0s_def digits_value_append digits_value_zeros digits_value_Nat_String)

section \<open>Amount codec: what \<^verbatim>\<open>atomicToHuman\<close> returns\<close>

lemma Int_Exp_nonneg: "0 \<le> D \<Longrightarrow> Int_Exp 10 D = 10 ^ nat D"
  by (cases "D = 0") (simp_all add: Int_Exp_def)

lemma take2_trimmed:
  assumes "s = t @ replicate k CHR ''0''" and "2 \<le> length s" and "length t < 2"
  shows "take 2 s = t @ replicate (2 - length t) CHR ''0''"
proof -
  from assms have "2 - length t \<le> k" by simp
  then have "take (2 - length t) (replicate k CHR ''0'') = replicate (2 - length t) CHR ''0''"
    by (simp add: min_def)
  with assms show ?thesis by simp
qed

text \<open>
  With a remainder that is not zero and a precision of two or more, the fractional part
  \<open>f\<close> is the padded remainder without a run of trailing zeros, it has two digits or
  more, and beyond two digits it does not end in a zero.
\<close>

lemma atomicToHuman_nonzero:
  assumes raw: "Int_SetString raw = Some A" and D: "2 \<le> D"
    and r: "A mod 10 ^ nat D \<noteq> 0"
  shows "\<exists>f k. atomicToHuman raw D = Inr (Int_String (A div 10 ^ nat D) @ ''.'' @ f)
            \<and> Sprintf_0s D (Int_String (A mod 10 ^ nat D)) = f @ replicate k CHR ''0''
            \<and> 2 \<le> length f \<and> (2 < length f \<longrightarrow> last f \<noteq> CHR ''0'')
            \<and> f = TrimRight0 (Sprintf_0s D (Int_String (A mod 10 ^ nat D)))
                  @ replicate (2 - length (TrimRight0 (Sprintf_0s D (Int_String (A mod 10 ^ nat D)))))
                      CHR ''0''"
proof -
  let ?s = "Sprintf_0s D (Int_String (A mod 10 ^ nat D))"
  let ?t = "TrimRight0 ?s"
  have E: "Int_Exp 10 D = 10 ^ nat D" using D by (simp add: Int_Exp_nonneg)
  obtain k where k: "?s = ?t @ replicate k CHR ''0''" using TrimRight0_decomp by blast
  have "nat D \<le> length ?s" by (rule length_Sprintf_0s_ge) (use D in simp)
  moreover have "2 \<le> nat D" using D by simp
  ultimately have len: "2 \<le> length ?s" by (rule le_trans [rotated])
  show ?thesis
  proof (cases "length ?t < 2")
    case True
    have t2: "take 2 ?s = ?t @ replicate (2 - length ?t) CHR ''0''"
      by (rule take2_trimmed [OF k len True])
    have a: "atomicToHuman raw D = Inr (Int_String (A div 10 ^ nat D) @ ''.'' @ take 2 ?s)"
      using raw r True len by (simp add: atomicToHuman_def Let_def E)
    have "?s = take 2 ?s @ drop 2 ?s" by simp
    moreover have "drop 2 ?s = replicate (length ?s - 2) CHR ''0''"
    proof -
      have "drop 2 ?s = drop 2 (?t @ replicate k CHR ''0'')" using k by simp
      also have "\<dots> = replicate (k - (2 - length ?t)) CHR ''0''" using True by simp
      finally have d: "drop 2 ?s = replicate (k - (2 - length ?t)) CHR ''0''" .
      have "length (drop 2 ?s) = k - (2 - length ?t)" by (subst d) simp
      then have "k - (2 - length ?t) = length ?s - 2" by simp
      with d show ?thesis by simp
    qed
    ultimately have "?s = take 2 ?s @ replicate (length ?s - 2) CHR ''0''" by simp
    moreover have "length (take 2 ?s) = 2" using len by simp
    ultimately show ?thesis
      using a t2 by (intro exI [of _ "take 2 ?s"] exI [of _ "length ?s - 2"]) simp
  next
    case False
    have a: "atomicToHuman raw D = Inr (Int_String (A div 10 ^ nat D) @ ''.'' @ ?t)"
      using raw r False by (simp add: atomicToHuman_def Let_def E)
    from False have ne: "?t \<noteq> []" by auto
    have "last ?t \<noteq> CHR ''0''" by (rule TrimRight0_last [OF ne])
    with a k False show ?thesis by (intro exI [of _ ?t] exI [of _ k]) simp
  qed
qed

lemma atomicToHuman_zero:
  assumes raw: "Int_SetString raw = Some A" and D: "0 \<le> D"
    and r: "A mod 10 ^ nat D = 0"
  shows "atomicToHuman raw D = Inr (Int_String (A div 10 ^ nat D) @ ''.000000'')"
  using assms by (simp add: atomicToHuman_def Let_def Int_Exp_nonneg)

lemma atomicToHuman_is_spec:
  assumes raw: "Int_SetString raw = Some A" and D: "2 \<le> D"
    and r: "A mod 10 ^ nat D \<noteq> 0"
  shows "atomicToHuman raw D = Inr (toHuman_spec A (nat D))"
proof -
  from atomicToHuman_nonzero [OF assms] obtain f where
    a: "atomicToHuman raw D = Inr (Int_String (A div 10 ^ nat D) @ ''.'' @ f)"
    and f: "f = TrimRight0 (Sprintf_0s D (Int_String (A mod 10 ^ nat D)))
                  @ replicate (2 - length (TrimRight0 (Sprintf_0s D (Int_String (A mod 10 ^ nat D)))))
                      CHR ''0''"
    by blast
  have "Sprintf_0s D (Int_String (A mod 10 ^ nat D)) =
        replicate (nat D - length (Int_String (A mod 10 ^ nat D))) CHR ''0''
        @ Int_String (A mod 10 ^ nat D)"
    using D by (simp add: Sprintf_0s_def)
  with a f show ?thesis by (simp add: toHuman_spec_def Let_def)
qed

lemma atomicToHuman_zero_6: "atomicToHuman ''0'' 6 = Inr ''0.000000''"
  by code_simp

lemma atomicToHuman_1000_6: "atomicToHuman ''1000'' 6 = Inr ''0.001''"
  by code_simp

text \<open>
  C2, as stated, fails: at amount 100 and precision 2 the remainder is zero, its two-digit
  zero-padded form trimmed down to two digits is \<open>00\<close>, and the program writes six zeros.
\<close>

theorem atomicToHuman_six_zeros_counterexample:
  "atomicToHuman ''100'' 2 \<noteq> Inr (toHuman_spec 100 2)
   \<and> atomicToHuman ''100'' 2 = Inr ''1.000000'' \<and> toHuman_spec 100 2 = ''1.00''"
  by code_simp

text \<open>
  C2, amended. For every base-10 integer string with value \<open>A\<close> and every precision
  \<open>D \<ge> 0\<close>: when \<open>A mod 10 ^ D\<close> is zero the result is the quotient, a point and six
  zeros; when it is not zero and \<open>D \<ge> 2\<close>, the result is the quotient, a point and the
  remainder zero-padded to \<open>D\<close> digits, trimmed of trailing zeros but kept at two digits
  at least. In particular amount 0 at precision 6 gives \<open>0.000000\<close> and amount 1000 at
  precision 6 gives \<open>0.001\<close>.
\<close>

theorem atomicToHuman_format:
  assumes "Int_SetString raw = Some A" and "0 \<le> D"
  shows "(A mod 10 ^ nat D = 0 \<longrightarrow>
            atomicToHuman raw D = Inr (Int_String (A div 10 ^ nat D) @ ''.000000''))
       \<and> (A mod 10 ^ nat D \<noteq> 0 \<and> 2 \<le> D \<longrightarrow>
            atomicToHuman raw D = Inr (toHuman_spec A (nat D)))
       \<and> atomicToHuman ''0'' 6 = Inr ''0.000000''
       \<and> atomicToHuman ''1000'' 6 = Inr ''0.001''"
  using assms
  by (simp add: atomicToHuman_zero atomicToHuman_is_spec atomicToHuman_zero_6 atomicToHuman_1000_6)

theorem atomicToHuman_format_witness:
  "Int_SetString ''1230'' = Some 1230 \<and> (1230 :: int) mod 10 ^ nat 2 \<noteq> 0
   \<and> atomicToHuman ''1230'' 2 = Inr (toHuman_spec 1230 (nat 2))
   \<and> toHuman_spec 1230 (nat 2) = ''12.30''
   \<and> Int_SetString ''100'' = Some 100 \<and> (100 :: int) mod 10 ^ nat 2 = 0
   \<and> atomicToHuman ''100'' 2 = Inr (Int_String (100 div 10 ^ nat 2) @ ''.000000'')"
proof -
  have a: "Int_SetString ''1230'' = Some 1230" by code_simp
  have b: "Int_SetString ''100'' = Some 100" by code_simp
  have c: "(0 :: int) \<le> 2" by simp
  have d: "toHuman_spec 1230 (nat 2) = ''12.30''" by code_simp
  show ?thesis
    using a b d atomicToHuman_format [OF a c] atomicToHuman_format [OF b c] by simp
qed

subsection \<open>Reading the result back\<close>

lemma Nat_String_no_point: "CHR ''.'' \<notin> set (Nat_String n)"
proof
  assume "CHR ''.'' \<in> set (Nat_String n)"
  with digits_value_all [OF digits_value_Nat_String] obtain d where "digit_val CHR ''.'' = Some d"
    by blast
  then show False using digit_val_not_sign by blast
qed

lemma decimal_value_parts:
  assumes "digits_value 0 f = Some b"
  shows "decimal_value (Nat_String n @ ''.'' @ f) = Some (of_nat n + of_nat b / 10 ^ length f)"
proof -
  let ?P = "\<lambda>c. c \<noteq> CHR ''.''"
  have all: "\<forall>c \<in> set (Nat_String n). ?P c" using Nat_String_no_point by metis
  have t: "takeWhile ?P (Nat_String n @ ''.'' @ f) = Nat_String n"
    using all by simp
  have d: "dropWhile ?P (Nat_String n @ ''.'' @ f) = ''.'' @ f"
    using all by simp
  have v: "digits_value 0 (Nat_String n) = Some n" by (simp add: digits_value_Nat_String)
  show ?thesis
    unfolding decimal_value_def t d Let_def
    using assms v by (simp add: Nat_String_nonempty)
qed

lemma six_zeros_value: "digits_value 0 ''000000'' = Some 0"
  by (simp add: digit_val_zero)

text \<open>
  Reading the result back and scaling by \<open>10 ^ D\<close> gives the amount again, for every
  non-negative amount and every precision \<open>D \<ge> 0\<close>, except where precision 1 meets an
  amount that is not a multiple of ten.
\<close>

lemma atomicToHuman_roundtrip:
  assumes raw: "Int_SetString raw = Some A" and A: "0 \<le> A" and D: "0 \<le> D"
    and ok: "D \<noteq> 1 \<or> A mod 10 = 0"
  shows "\<exists>s. atomicToHuman raw D = Inr s \<and> rescale s (nat D) = Some (of_int A)"
proof -
  let ?q = "A div 10 ^ nat D" and ?r = "A mod 10 ^ nat D"
  have q0: "0 \<le> ?q" using A by (simp add: pos_imp_zdiv_nonneg_iff)
  have r0: "0 \<le> ?r" by simp
  have rlt: "?r < 10 ^ nat D" by simp
  have split: "A = ?q * 10 ^ nat D + ?r" by (rule div_mult_mod_eq [symmetric])
  have qs: "Int_String ?q = Nat_String (nat ?q)" using q0 by (simp add: Int_String_def)
  show ?thesis
  proof (cases "?r = 0")
    case True
    have s: "atomicToHuman raw D = Inr (Nat_String (nat ?q) @ ''.'' @ ''000000'')"
      using atomicToHuman_zero [OF raw D True] qs by simp
    have "decimal_value (Nat_String (nat ?q) @ ''.'' @ ''000000'')
            = Some (of_nat (nat ?q) + of_nat 0 / 10 ^ length ''000000'')"
      by (rule decimal_value_parts [OF six_zeros_value])
    then have "rescale (Nat_String (nat ?q) @ ''.'' @ ''000000'') (nat D)
                 = Some (of_nat (nat ?q) * 10 ^ nat D)"
      by (simp add: rescale_def)
    also have "(of_nat (nat ?q) :: rat) * 10 ^ nat D = of_int (?q * 10 ^ nat D)"
      using q0 by simp
    also have "?q * 10 ^ nat D = A" using split True by simp
    finally show ?thesis using s by blast
  next
    case False
    have D2: "2 \<le> D"
    proof (rule ccontr)
      assume "\<not> 2 \<le> D"
      with D have "D = 0 \<or> D = 1" by auto
      then show False
      proof
        assume "D = 0" with False show False by simp
      next
        assume d1: "D = 1"
        with ok have "A mod 10 = 0" by simp
        with d1 False show False by simp
      qed
    qed
    from atomicToHuman_nonzero [OF raw D2 False] obtain f k where
      s: "atomicToHuman raw D = Inr (Int_String ?q @ ''.'' @ f)"
      and fk: "Sprintf_0s D (Int_String ?r) = f @ replicate k CHR ''0''"
      by blast
    have "\<not> ?r < 0" using r0 by (simp only: not_less)
    then have rs: "Int_String ?r = Nat_String (nat ?r)" by (simp only: Int_String_def if_False)
    have "nat ?r < 10 ^ nat D"
    proof -
      have "int (nat ?r) = ?r" using r0 by (rule nat_0_le)
      then have "int (nat ?r) < int (10 ^ nat D)" using rlt by simp
      then show ?thesis by (simp only: of_nat_less_iff)
    qed
    moreover have "0 < nat D" using D2 by simp
    ultimately have "length (Nat_String (nat ?r)) \<le> nat D" by (rule length_Nat_String)
    then have "length (Sprintf_0s D (Nat_String (nat ?r))) = nat D"
      using D by (simp add: length_Sprintf_0s)
    then have len: "length f + k = nat D" using fk rs by simp
    have "digits_value 0 (f @ replicate k CHR ''0'') = Some (nat ?r)"
      using digits_value_Sprintf_0s [OF D, of "nat ?r"] fk rs by simp
    then obtain b where b: "digits_value 0 f = Some b" and bk: "b * 10 ^ k = nat ?r"
      by (auto simp: digits_value_append digits_value_zeros split: option.splits)
    have "decimal_value (Nat_String (nat ?q) @ ''.'' @ f)
            = Some (of_nat (nat ?q) + of_nat b / 10 ^ length f)"
      by (rule decimal_value_parts [OF b])
    then have "rescale (Int_String ?q @ ''.'' @ f) (nat D)
                 = Some ((of_nat (nat ?q) + of_nat b / 10 ^ length f) * 10 ^ nat D)"
      by (simp add: rescale_def qs)
    also have "((of_nat (nat ?q) :: rat) + of_nat b / 10 ^ length f) * 10 ^ nat D = of_int A"
    proof -
      have p: "(10 :: rat) ^ nat D = 10 ^ length f * 10 ^ k"
        using len by (simp add: power_add [symmetric])
      have "((of_nat (nat ?q) :: rat) + of_nat b / 10 ^ length f) * 10 ^ nat D
              = of_nat (nat ?q) * 10 ^ nat D + of_nat b * 10 ^ k"
        by (simp add: p distrib_right)
      also have "(of_nat b :: rat) * 10 ^ k = of_nat (b * 10 ^ k)" by simp
      also have "\<dots> = of_int ?r" using bk r0 by simp
      also have "(of_nat (nat ?q) :: rat) * 10 ^ nat D = of_int (?q * 10 ^ nat D)"
        using q0 by simp
      finally have "((of_nat (nat ?q) :: rat) + of_nat b / 10 ^ length f) * 10 ^ nat D
              = of_int (?q * 10 ^ nat D) + of_int ?r" .
      also have "\<dots> = of_int (?q * 10 ^ nat D + ?r)" by simp
      also have "?q * 10 ^ nat D + ?r = A" by (rule div_mult_mod_eq)
      finally show ?thesis .
    qed
    finally show ?thesis using s by blast
  qed
qed

text \<open>
  C3 asks that reading the human string back and scaling by \<open>10 ^ D\<close> gives the amount
  again, for every precision. At precision 1 and amount 5 there is no string to read
  back: the padded remainder is the single digit \<open>5\<close>, trimming leaves it as it is, and
  the slice of its first two bytes panics.
\<close>

theorem atomicToHuman_precision_one:
  "atomicToHuman ''5'' 1 = Inl SliceBoundsOutOfRange"
  by code_simp


section \<open>Balance query: no panic, and zero payloads\<close>

lemma atomicToHuman_total:
  assumes "Int_SetString raw = Some A" and "2 \<le> D"
  shows "\<exists>s. atomicToHuman raw D = Inr s"
proof (cases "A mod 10 ^ nat D = 0")
  case True
  with assms show ?thesis by (simp add: atomicToHuman_zero)
next
  case False
  with atomicToHuman_nonzero [OF assms] show ?thesis by blast
qed

lemma SetBytes_nonneg: "0 \<le> SetBytes bs"
  by (simp add: SetBytes_def)

lemma atomicToHuman_SetBytes: "\<exists>s. atomicToHuman (Int_String (SetBytes bs)) 6 = Inr s"
  by (rule atomicToHuman_total [OF Int_SetString_Int_String [OF SetBytes_nonneg]]) simp

lemma queryUSDCBalance_events:
  "fst (queryUSDCBalance w u c a) = [RpcPost u c (balanceOf_callData a)]"
  by (simp add: queryUSDCBalance_def Let_def)

lemma queryUSDCBalance_no_panic: "snd (queryUSDCBalance w u c a) \<noteq> Panicked f"
proof -
  have "\<And>bs. (case atomicToHuman (Int_String (SetBytes bs)) 6 of
                 Inl f \<Rightarrow> Panicked f
               | Inr human \<Rightarrow> Balance_of human (Int_String (SetBytes bs))) \<noteq> Panicked f"
  proof -
    fix bs
    obtain s where "atomicToHuman (Int_String (SetBytes bs)) 6 = Inr s"
      using atomicToHuman_SetBytes by blast
    then show "(case atomicToHuman (Int_String (SetBytes bs)) 6 of
                 Inl f \<Rightarrow> Panicked f
               | Inr human \<Rightarrow> Balance_of human (Int_String (SetBytes bs))) \<noteq> Panicked f"
      by simp
  qed
  then show ?thesis
    by (simp add: queryUSDCBalance_def Let_def split: rpc_reply.splits option.splits)
qed

text \<open>A payload of zeros decodes to zero bytes, and those to the amount 0.\<close>

lemma hex_val_zero: "hex_val CHR ''0'' = Some 0"
  by (simp add: hex_val_def)

lemma hex_DecodeString_zeros:
  "hex_DecodeString (replicate (2 * k) CHR ''0'') = Some (replicate k 0)"
  by (induction k) (simp_all add: hex_val_zero)

lemma SetBytes_zeros: "SetBytes (replicate k 0) = 0"
proof -
  have "foldl (\<lambda>v b. 256 * v + unat b) 0 (replicate k (0 :: 8 word)) = 0"
    by (induction k) simp_all
  then show ?thesis by (simp add: SetBytes_def)
qed

lemma all_zero_replicate: "set s \<subseteq> {CHR ''0''} \<Longrightarrow> s = replicate (length s) CHR ''0''"
  by (induction s) auto

lemma padHexLeft_zeros:
  "\<exists>k. padHexLeft (replicate n CHR ''0'') = replicate (2 * k) CHR ''0''"
proof (cases "even n")
  case True
  then obtain k where "n = 2 * k" by (auto elim: evenE)
  then show ?thesis by (auto simp: padHexLeft_def)
next
  case False
  then obtain k where k: "n = 2 * k + 1" by (auto elim: oddE)
  then have "padHexLeft (replicate n CHR ''0'') = replicate (2 * (k + 1)) CHR ''0''"
    by (simp add: padHexLeft_def)
  then show ?thesis by blast
qed

lemma Int_String_0: "Int_String 0 = ''0''"
  by code_simp

lemma zero_payload:
  assumes "rpc_post w rpcURL contractAddr (balanceOf_callData walletAddr) = Reply res None"
      and "set (TrimPrefix res ''0x'') \<subseteq> {CHR ''0''}"
  shows "snd (queryUSDCBalance w rpcURL contractAddr walletAddr) =
           Balance_of (if TrimPrefix res ''0x'' = [] \<or> TrimPrefix res ''0x'' = ''0''
                       then ''0'' else ''0.000000'') ''0''"
proof -
  let ?h = "TrimPrefix res ''0x''"
  have h: "?h = replicate (length ?h) CHR ''0''" by (rule all_zero_replicate [OF assms(2)])
  obtain k where "padHexLeft (replicate (length ?h) CHR ''0'') = replicate (2 * k) CHR ''0''"
    using padHexLeft_zeros by blast
  with h have "padHexLeft ?h = replicate (2 * k) CHR ''0''" by simp
  then have d: "hex_DecodeString (padHexLeft ?h) = Some (replicate k 0)"
    by (simp add: hex_DecodeString_zeros)
  show ?thesis
    using assms(1) d
    by (simp add: queryUSDCBalance_def Let_def SetBytes_zeros Int_String_0 atomicToHuman_zero_6)
qed

section \<open>The loop of the wallet command\<close>

lemma query_loop_step:
  "query_loop w address jsonOut (ni # rest) result tr =
     query_loop w address jsonOut rest
       (result\<lparr>Balances := Balances result @ [network_entry w address ni]\<rparr>)
       (tr @ network_events w address jsonOut ni)"
proof -
  obtain name info where ni: "ni = (name, info)" by (cases ni)
  obtain evs r where q: "queryUSDCBalance w (RPCURL info) (USDCContract info) address = (evs, r)"
    by (cases "queryUSDCBalance w (RPCURL info) (USDCContract info) address")
  have evs: "evs = [RpcPost (RPCURL info) (USDCContract info) (balanceOf_callData address)]"
    using queryUSDCBalance_events [of w "RPCURL info" "USDCContract info" address] q by simp
  have r: "r = snd (queryUSDCBalance w (RPCURL info) (USDCContract info) address)"
    using q by simp
  show ?thesis
  proof (cases r)
    case (Panicked f)
    with r queryUSDCBalance_no_panic [of w "RPCURL info" "USDCContract info" address f]
    show ?thesis by simp
  next
    case (Failed err)
    with ni q evs show ?thesis
      by (simp add: network_entry_def network_events_def network_line_def network_reply_def
            network_post_def)
  next
    case (Balance_of h raw)
    with ni q evs show ?thesis
      by (simp add: network_entry_def network_events_def network_line_def network_reply_def
            network_post_def)
  qed
qed

lemma query_loop_all:
  "query_loop w address jsonOut nets result tr =
     (result\<lparr>Balances := Balances result @ map (network_entry w address) nets\<rparr>,
      tr @ concat (map (network_events w address jsonOut) nets), None)"
proof (induction nets arbitrary: result tr)
  case Nil
  show ?case by simp
next
  case (Cons ni rest)
  show ?case by (simp only: query_loop_step Cons.IH) simp
qed

lemma rpc_calls_of_loop:
  "filter is_rpc_call (concat (map (network_events w address jsonOut) nets)) =
     map (network_post address) nets"
  by (induction nets) (simp_all add: network_events_def network_post_def network_line_def
        split: balance_result.splits)

lemma network_entry_name: "Network (network_entry w address ni) = fst ni"
  by (simp add: network_entry_def split: balance_result.splits)

lemma network_entry_failed:
  "network_reply w address ni = Failed err \<Longrightarrow>
     Balance (network_entry w address ni) = ''error'' \<and> Raw (network_entry w address ni) = err"
  by (simp add: network_entry_def)

lemma network_entry_balance:
  "network_reply w address ni = Balance_of h raw \<Longrightarrow>
     Balance (network_entry w address ni) = h \<and> Raw (network_entry w address ni) = raw"
  by (simp add: network_entry_def)

lemma runWallet_all:
  "runWallet w address [] jsonOut =
     (\<lparr>Address = address, Balances = map (network_entry w address) (range_networks w),
        wallet_Error = []\<rparr>,
      (if \<not> jsonOut then [Stdout (''Wallet:  '' @ address), Stdout []] else [])
      @ concat (map (network_events w address jsonOut) (range_networks w))
      @ (if jsonOut
         then [StdoutWalletJSON \<lparr>Address = address,
                  Balances = map (network_entry w address) (range_networks w), wallet_Error = []\<rparr>]
         else []),
      None)"
  by (simp add: runWallet_def Let_def query_loop_all)


subsection \<open>The networks enumerated are the registry\<close>

text \<open>
  When the runtime enumerates every key of the registry once, in whatever order, the
  networks queried are exactly the entries of the registry.
\<close>

lemma networks_distinct: "distinct (map fst networks)"
  by (simp add: networks_def)

lemma range_networks_set:
  "set (range_networks w) = {(n, i). n \<in> set (range_order w) \<and> map_of networks n = Some i}"
proof -
  have "set (List.map_filter (\<lambda>name. map_option (Pair name) (map_of networks name)) xs)
          = {(n, i). n \<in> set xs \<and> map_of networks n = Some i}" for xs
    by (induction xs) (auto simp: map_filter_def)
  then show ?thesis by (simp add: range_networks_def)
qed

lemma range_networks_names:
  "map fst (range_networks w) = filter (\<lambda>n. map_of networks n \<noteq> None) (range_order w)"
proof -
  have "map fst (List.map_filter (\<lambda>name. map_option (Pair name) (map_of networks name)) xs)
          = filter (\<lambda>n. map_of networks n \<noteq> None) xs" for xs
    by (induction xs) (auto simp: map_filter_def)
  then show ?thesis by (simp add: range_networks_def)
qed

lemma range_networks_registry:
  assumes "distinct (range_order w)" and "set (range_order w) = fst ` set networks"
  shows "set (range_networks w) = set networks"
    and "distinct (map fst (range_networks w))"
proof -
  have "\<And>n i. (n, i) \<in> set networks \<longleftrightarrow> map_of networks n = Some i"
    using networks_distinct by simp
  moreover have "\<And>n i. map_of networks n = Some i \<Longrightarrow> n \<in> set (range_order w)"
    using assms(2) by (metis map_of_SomeD fst_conv image_eqI)
  ultimately show "set (range_networks w) = set networks"
    unfolding range_networks_set by auto
  show "distinct (map fst (range_networks w))"
    unfolding range_networks_names using assms(1) by simp
qed

section \<open>The main command, stage by stage\<close>

lemma logf_quiet [simp]:
  "filter is_network_call (logf fl s) = []" "filter is_signer_call (logf fl s) = []"
  by (simp_all add: logf_def)

lemma saveOutput_quiet [simp]:
  "filter is_network_call (saveOutput w file body) = []"
  "filter is_signer_call (saveOutput w file body) = []"
  by (simp_all add: saveOutput_def split: option.splits)

lemma exit_simps [simp]:
  "exit_code (os_Exit code result tr) = code"
  "final (os_Exit code result tr) = result"
  "trace (os_Exit code result tr) = tr"
  "exit_code (exitJSON w result code tr) = code"
  "final (exitJSON w result code tr) = result"
  "trace (exitJSON w result code tr) = tr @ [StdoutJSON (MarshalIndent w result)]"
  by (simp_all add: os_Exit_def exitJSON_def)

lemma main_run_probe:
  assumes "probe_answer w fl = Some resp"
  shows "\<exists>result tr. main_run w fl = after_probe w fl (probe_request fl) result tr resp
           \<and> filter is_network_call tr = [SendProbe (probe_request fl)]
           \<and> filter is_signer_call tr = []
           \<and> Status result = [] \<and> Error result = [] \<and> Payment result = None"
proof -
  from assms have a: "\<not> showVer fl" "endpoint fl \<noteq> []"
    and b: "http_NewRequest w (req_method (probe_request fl)) (endpoint fl) = None"
    and c: "plain_Do w (probe_request fl) = Inr resp"
    by (auto simp: probe_answer_def split: if_splits option.splits sum.splits)
  let ?m = "if data fl \<noteq> [] \<and> httpMethod fl = ''GET'' then ''POST'' else httpMethod fl"
  let ?result = "\<lparr>Version = build_version w, Endpoint = endpoint fl, Method = ?m,
                          Status = [], Probe = None, Payment = None, Error = []\<rparr>"
  let ?tr = "logf fl (''x402-cli '' @ build_version w) @ logf fl (''Endpoint: '' @ endpoint fl)
                     @ logf fl (''Method:   '' @ ?m) @ logf fl []
                     @ logf fl ''--- Step 1: Request without payment ---''
                     @ (if verbose fl \<and> \<not> quiet fl \<and> \<not> jsonOutput fl
                                   then [DumpRequest (probe_request fl)] else [])
                                @ [SendProbe (probe_request fl)]"
  have pr: "probe_request fl = \<lparr>req_method = ?m, req_url = endpoint fl, req_data = data fl,
                       req_headers = headers fl\<rparr>" by (simp add: probe_request_def)
  have m: "req_method (probe_request fl) = ?m" by (simp add: probe_request_def)
  have "main_run w fl = after_probe w fl (probe_request fl) ?result ?tr resp"
    unfolding main_run_def Let_def pr [symmetric]
    using a b c by (simp add: m [symmetric])
  moreover have "filter is_network_call ?tr = [SendProbe (probe_request fl)]" by simp
  moreover have "filter is_signer_call ?tr = []" by simp
  ultimately show ?thesis by (intro exI [of _ ?result] exI [of _ ?tr]) simp
qed

lemmas exit_code_defs = ExitSuccess_def ExitError_def ExitPaymentRejected_def ExitFreeRoute_def

lemma classify_payment_exit:
  "exit_code (classify_payment w fl result tr code) =
     (if code = 200 then 0 else if code = 402 then 2 else 1)"
  by (simp add: classify_payment_def Let_def exit_code_defs)

lemma classify_payment_Probe:
  "Probe (final (classify_payment w fl result tr code)) = Probe result"
  by (simp add: classify_payment_def Let_def)

lemma payment_phase_Probe:
  "Probe (final (payment_phase w fl req result tr)) = Probe result"
  by (simp add: payment_phase_def Let_def classify_payment_Probe split: sum.splits)

lemma payment_phase_exit:
  "exit_code (payment_phase w fl req result tr) = exit_code (payment_phase w fl req result' tr')"
  by (simp add: payment_phase_def Let_def classify_payment_exit split: sum.splits)

lemma payment_phase_no_key:
  assumes "EVM_PRIVATE_KEY w = []"
  shows "exit_code (payment_phase w fl req result tr) = 1"
    and "filter is_network_call (trace (payment_phase w fl req result tr)) = filter is_network_call tr"
    and "filter is_signer_call (trace (payment_phase w fl req result tr)) = filter is_signer_call tr"
    and "jsonOutput fl \<Longrightarrow> Status (final (payment_phase w fl req result tr)) = ''error''"
    and "jsonOutput fl \<Longrightarrow> Error (final (payment_phase w fl req result tr))
           = ''EVM_PRIVATE_KEY is required for Step 2 (payment)''"
    and "\<not> jsonOutput fl \<Longrightarrow>
           Stderr ''Error: EVM_PRIVATE_KEY is required for Step 2 (payment).''
             \<in> set (trace (payment_phase w fl req result tr))"
  using assms by (simp_all add: payment_phase_def Let_def exit_code_defs)

lemma confirmation_gate_Probe:
  "Probe (final (confirmation_gate w fl req body result tr)) = Probe result"
  by (simp add: confirmation_gate_def Let_def payment_phase_Probe)

lemma confirmation_gate_exit:
  "exit_code (confirmation_gate w fl req body result tr)
     = exit_code (confirmation_gate w fl req body' result' tr')"
proof -
  have p: "\<And>t t'. exit_code (payment_phase w fl req result t) = exit_code (payment_phase w fl req result' t')"
    by (rule payment_phase_exit)
  show ?thesis
    unfolding confirmation_gate_def Let_def
    by (auto simp: exit_code_defs intro: p)
qed

lemma confirmation_gate_open:
  assumes "gate_open w fl"
  shows "\<exists>tr'. confirmation_gate w fl req body result tr = payment_phase w fl req result tr'
            \<and> filter is_network_call tr' = filter is_network_call tr
            \<and> filter is_signer_call tr' = filter is_signer_call tr"
proof (cases "dryRun fl \<and> \<not> autoYes fl")
  case False
  then have "confirmation_gate w fl req body result tr = payment_phase w fl req result tr"
    by (auto simp add: confirmation_gate_def)
  then show ?thesis by blast
next
  case True
  with assms obtain line where l: "\<not> jsonOutput fl" "stdin_line w = Some line" "affirmative line"
    by (auto simp: gate_open_def split: option.splits)
  let ?tr = "tr @ [PrintPaymentSummary body, Stdout [],
                           Prompt ''Proceed with payment? [y/N] '', ReadStdin] @ [Stdout []]"
  from True l have "confirmation_gate w fl req body result tr = payment_phase w fl req result ?tr"
    by (simp add: confirmation_gate_def Let_def)
  moreover have "filter is_network_call ?tr = filter is_network_call tr" by simp
  moreover have "filter is_signer_call ?tr = filter is_signer_call tr" by simp
  ultimately show ?thesis by blast
qed

lemma after_probe_Probe:
  "Probe (final (after_probe w fl req result tr resp)) = Some (build_probe resp)"
  by (simp add: after_probe_def Let_def confirmation_gate_Probe)

lemma after_probe_exit:
  assumes "resp_StatusCode resp = resp_StatusCode resp'"
  shows "exit_code (after_probe w fl req result tr resp)
           = exit_code (after_probe w fl req result' tr' resp')"
proof -
  have g: "\<And>b r t b' r' t'. exit_code (confirmation_gate w fl req b r t)
           = exit_code (confirmation_gate w fl req b' r' t')"
    by (rule confirmation_gate_exit)
  show ?thesis
    unfolding after_probe_def Let_def using assms
    by (auto simp: exit_code_defs intro: g)
qed

lemma after_probe_free:
  assumes "resp_StatusCode resp = 200"
  shows "Status (final (after_probe w fl req result tr resp)) = ''free''"
    and "exit_code (after_probe w fl req result tr resp) = 3"
  using assms by (simp_all add: after_probe_def Let_def exit_code_defs)

lemma after_probe_skip:
  assumes "resp_StatusCode resp = 402" and "skipVerify fl"
  shows "Status (final (after_probe w fl req result tr resp)) = ''payment_required''"
    and "exit_code (after_probe w fl req result tr resp) = 0"
    and "filter is_signer_call (trace (after_probe w fl req result tr resp)) = filter is_signer_call tr"
    and "filter is_network_call (trace (after_probe w fl req result tr resp)) = filter is_network_call tr"
  using assms by (simp_all add: after_probe_def Let_def exit_code_defs)

lemma after_probe_gate:
  assumes "resp_StatusCode resp = 402" and "\<not> skipVerify fl"
  shows "\<exists>result' tr'. after_probe w fl req result tr resp
             = confirmation_gate w fl req (resp_Body resp) result' tr'
           \<and> filter is_network_call tr' = filter is_network_call tr
           \<and> filter is_signer_call tr' = filter is_signer_call tr"
proof -
  let ?tr = "((tr @ (if verbose fl \<and> \<not> quiet fl \<and> \<not> jsonOutput fl then [DumpResponse resp] else []))
     @ (if Header_Get (resp_Header resp) ''PAYMENT-REQUIRED'' \<noteq> [] \<and> \<not> quiet fl \<and> \<not> jsonOutput fl
                     then [PrintBase64Header ''PAYMENT-REQUIRED'' (Header_Get (resp_Header resp) ''PAYMENT-REQUIRED'')] else []))
     @ (if \<not> jsonOutput fl then
                       logf fl (''Status: '' @ Int_String (resp_StatusCode resp))
                       @ (if \<not> verbose fl
                          then logf fl (''Body: '' @ truncate (resp_Body resp) 300) @ logf fl []
                          else [])
                     else [])"
  have "after_probe w fl req result tr resp
          = confirmation_gate w fl req (resp_Body resp) (result\<lparr>Probe := Some (build_probe resp)\<rparr>) ?tr"
    using assms by (simp add: after_probe_def Let_def)
  moreover have "filter is_network_call ?tr = filter is_network_call tr" by simp
  moreover have "filter is_signer_call ?tr = filter is_signer_call tr" by simp
  ultimately show ?thesis by blast
qed

lemma b64_groups_nonempty: "b64_groups s = Some d \<Longrightarrow> s \<noteq> [] \<Longrightarrow> d \<noteq> []"
  by (cases s rule: b64_groups.cases)
     (auto split: option.splits if_splits)

lemma base64_nonempty:
  assumes "base64_DecodeString h = Some d" and "\<not> set h \<subseteq> {char_of (13 :: nat), char_of (10 :: nat)}"
  shows "d \<noteq> []"
proof -
  from assms(2) have "filter (\<lambda>c. c \<noteq> char_of (13 :: nat) \<and> c \<noteq> char_of (10 :: nat)) h \<noteq> []"
    by (auto simp: filter_empty_conv)
  with assms(1) show ?thesis
    unfolding base64_DecodeString_def by (rule b64_groups_nonempty)
qed

lemma build_probe_simps:
  "StatusCode (build_probe resp) = resp_StatusCode resp"
  "PaymentRequired (build_probe resp) = (resp_StatusCode resp = 402)"
  "Body (build_probe resp) = resp_Body resp"
  by (simp_all add: build_probe_def Let_def split: option.splits)

lemma build_probe_decoded:
  "Header_Get (resp_Header resp) ''PAYMENT-REQUIRED'' \<noteq> [] \<Longrightarrow>
   PaymentRequirements (build_probe resp)
     = base64_DecodeString (Header_Get (resp_Header resp) ''PAYMENT-REQUIRED'')"
  by (simp add: build_probe_def Let_def split: option.splits)

lemma build_probe_absent:
  "Header_Get (resp_Header resp) ''PAYMENT-REQUIRED'' = [] \<Longrightarrow>
   PaymentRequirements (build_probe resp) = None"
  by (simp add: build_probe_def Let_def)

lemma main_run_Probe:
  assumes "probe_answer w fl = Some resp"
  shows "Probe (final (main_run w fl)) = Some (build_probe resp)"
proof -
  from main_run_probe [OF assms] obtain result tr where
    "main_run w fl = after_probe w fl (probe_request fl) result tr resp" by blast
  then show ?thesis by (simp add: after_probe_Probe)
qed

lemma probe_answer_other:
  assumes "probe_answer w fl = Some resp"
  shows "probe_answer (w\<lparr>plain_Do := \<lambda>r. Inr resp'\<rparr>) fl = Some resp'"
  using assms by (auto simp: probe_answer_def split: if_splits option.splits)

lemma payment_phase_plain_Do:
  "payment_phase (w\<lparr>plain_Do := f\<rparr>) fl req result tr = payment_phase w fl req result tr"
  by (simp add: payment_phase_def classify_payment_def exitJSON_def MarshalIndent_def
        saveOutput_def Let_def cong: sum.case_cong option.case_cong if_cong)

lemma after_probe_plain_Do:
  "after_probe (w\<lparr>plain_Do := f\<rparr>) fl req result tr resp = after_probe w fl req result tr resp"
  by (simp add: after_probe_def confirmation_gate_def payment_phase_plain_Do exitJSON_def
        MarshalIndent_def saveOutput_def Let_def cong: sum.case_cong option.case_cong if_cong)

lemma main_run_exit_by_status:
  assumes "probe_answer w fl = Some resp" and "resp_StatusCode resp' = resp_StatusCode resp"
  shows "exit_code (main_run (w\<lparr>plain_Do := \<lambda>r. Inr resp'\<rparr>) fl) = exit_code (main_run w fl)"
proof -
  let ?w = "w\<lparr>plain_Do := \<lambda>r. Inr resp'\<rparr>"
  from main_run_probe [OF assms(1)] obtain result tr where
    a: "main_run w fl = after_probe w fl (probe_request fl) result tr resp" by blast
  from main_run_probe [OF probe_answer_other [OF assms(1)]] obtain result' tr' where
    b: "main_run ?w fl = after_probe ?w fl (probe_request fl) result' tr' resp'" by blast
  show ?thesis
    unfolding a b after_probe_plain_Do by (rule after_probe_exit [OF assms(2)])
qed


section \<open>Results on the main command\<close>

lemma specimen_probe: "probe_answer specimen_world specimen_flags = Some answer_402"
  by (simp add: probe_answer_def probe_request_def specimen_world_def specimen_flags_def answer_402_def)

lemma specimen_probe_upd:
  "probe_answer (specimen_world\<lparr>plain_Do := \<lambda>r. Inr resp\<rparr>) specimen_flags = Some resp"
  by (simp add: probe_answer_def probe_request_def specimen_world_def specimen_flags_def)

text \<open>
  C1. Whenever the probe is answered with status 200, the run ends with overall status
  \<open>free\<close> and exit code 3, whatever the credential variable holds (\<open>key\<close> is
  any string, the empty one included).
\<close>

theorem free_route_exit:
  assumes "probe_answer w fl = Some resp" and "resp_StatusCode resp = 200"
  shows "Status (final (main_run (w\<lparr>EVM_PRIVATE_KEY := key\<rparr>) fl)) = ''free''
       \<and> exit_code (main_run (w\<lparr>EVM_PRIVATE_KEY := key\<rparr>) fl) = 3"
proof -
  have "probe_answer (w\<lparr>EVM_PRIVATE_KEY := key\<rparr>) fl = Some resp"
    using assms(1) by (simp add: probe_answer_def cong: option.case_cong if_cong)
  from main_run_probe [OF this] obtain result tr where
    "main_run (w\<lparr>EVM_PRIVATE_KEY := key\<rparr>) fl
       = after_probe (w\<lparr>EVM_PRIVATE_KEY := key\<rparr>) fl (probe_request fl) result tr resp"
    by blast
  then show ?thesis by (simp add: after_probe_free [OF assms(2)])
qed

theorem free_route_exit_witness:
  "Status (final (main_run (specimen_world\<lparr>plain_Do := \<lambda>r. Inr answer_200, EVM_PRIVATE_KEY := []\<rparr>)
                    specimen_flags)) = ''free''
   \<and> exit_code (main_run (specimen_world\<lparr>plain_Do := \<lambda>r. Inr answer_200, EVM_PRIVATE_KEY := []\<rparr>)
                    specimen_flags) = 3
   \<and> exit_code (main_run (specimen_world\<lparr>plain_Do := \<lambda>r. Inr answer_200, EVM_PRIVATE_KEY := ''0x01''\<rparr>)
                    specimen_flags) = 3"
proof -
  have a: "probe_answer (specimen_world\<lparr>plain_Do := \<lambda>r. Inr answer_200\<rparr>) specimen_flags = Some answer_200"
    by (rule specimen_probe_upd)
  have b: "resp_StatusCode answer_200 = 200" by (simp add: answer_200_def)
  show ?thesis
    using free_route_exit [OF a b, of "[]"] free_route_exit [OF a b, of "''0x01''"] by simp
qed

text \<open>
  C6. Whenever the probe is answered with status 402 and \<^verbatim>\<open>--skip-verify\<close> is set, the
  run stops with overall status \<open>payment_required\<close> and exit code 0; no signer is
  constructed, and the probe is the only network call, so no payment request is sent.
\<close>

theorem skip_verify_stops:
  assumes "probe_answer w fl = Some resp" and "resp_StatusCode resp = 402" and "skipVerify fl"
  shows "Status (final (main_run w fl)) = ''payment_required''
       \<and> exit_code (main_run w fl) = 0
       \<and> filter is_signer_call (trace (main_run w fl)) = []
       \<and> filter is_network_call (trace (main_run w fl)) = [SendProbe (probe_request fl)]"
proof -
  from main_run_probe [OF assms(1)] obtain result tr where
    m: "main_run w fl = after_probe w fl (probe_request fl) result tr resp"
    and n: "filter is_network_call tr = [SendProbe (probe_request fl)]"
    and s: "filter is_signer_call tr = []"
    by blast
  show ?thesis
    unfolding m using n s by (simp add: after_probe_skip [OF assms(2,3)])
qed

theorem skip_verify_stops_witness:
  "Status (final (main_run specimen_world (specimen_flags\<lparr>skipVerify := True\<rparr>))) = ''payment_required''
   \<and> exit_code (main_run specimen_world (specimen_flags\<lparr>skipVerify := True\<rparr>)) = 0
   \<and> filter is_signer_call (trace (main_run specimen_world (specimen_flags\<lparr>skipVerify := True\<rparr>))) = []"
proof -
  have a: "probe_answer specimen_world (specimen_flags\<lparr>skipVerify := True\<rparr>) = Some answer_402"
    by (simp add: probe_answer_def probe_request_def specimen_world_def specimen_flags_def answer_402_def)
  have b: "resp_StatusCode answer_402 = 402" by (simp add: answer_402_def)
  have c: "skipVerify (specimen_flags\<lparr>skipVerify := True\<rparr>)" by simp
  show ?thesis using skip_verify_stops [OF a b c] by simp
qed

text \<open>
  C5, as stated, fails: with the probe answered 402, \<^verbatim>\<open>--skip-verify\<close> off and the
  credential empty, a run in JSON mode with \<^verbatim>\<open>--dry-run\<close> and without \<^verbatim>\<open>--yes\<close>
  leaves through the dry-run gate with exit code 0 and status \<open>payment_required\<close>; the
  credential is never looked at.
\<close>

theorem missing_credential_counterexample:
  "probe_answer (specimen_world\<lparr>EVM_PRIVATE_KEY := []\<rparr>)
       (specimen_flags\<lparr>dryRun := True, jsonOutput := True\<rparr>) = Some answer_402
   \<and> resp_StatusCode answer_402 = 402
   \<and> \<not> skipVerify (specimen_flags\<lparr>dryRun := True, jsonOutput := True\<rparr>)
   \<and> EVM_PRIVATE_KEY (specimen_world\<lparr>EVM_PRIVATE_KEY := []\<rparr>) = []
   \<and> exit_code (main_run (specimen_world\<lparr>EVM_PRIVATE_KEY := []\<rparr>)
                  (specimen_flags\<lparr>dryRun := True, jsonOutput := True\<rparr>)) = 0
   \<and> Status (final (main_run (specimen_world\<lparr>EVM_PRIVATE_KEY := []\<rparr>)
                  (specimen_flags\<lparr>dryRun := True, jsonOutput := True\<rparr>))) = ''payment_required''"
  by (simp add: probe_answer_def probe_request_def specimen_world_def specimen_flags_def
        answer_402_def main_run_def after_probe_def confirmation_gate_def Let_def exit_code_defs)

text \<open>
  C5, amended. Whenever the probe is answered with status 402, \<^verbatim>\<open>--skip-verify\<close> is off,
  the credential is empty and the dry-run gate lets the run through, the run ends with
  exit code 1 before any signer is constructed and before any payment request is sent:
  the probe, already answered, is the only network call of the run. In JSON mode the
  overall status is \<open>error\<close> and the error field names the missing credential; in
  text mode the message goes to the diagnostic stream.
\<close>

theorem missing_credential_after_gate:
  assumes "probe_answer w fl = Some resp" and "resp_StatusCode resp = 402"
    and "\<not> skipVerify fl" and "EVM_PRIVATE_KEY w = []" and "gate_open w fl"
  shows "exit_code (main_run w fl) = 1
       \<and> filter is_signer_call (trace (main_run w fl)) = []
       \<and> filter is_network_call (trace (main_run w fl)) = [SendProbe (probe_request fl)]
       \<and> (jsonOutput fl \<longrightarrow> Status (final (main_run w fl)) = ''error''
             \<and> Error (final (main_run w fl)) = ''EVM_PRIVATE_KEY is required for Step 2 (payment)'')
       \<and> (\<not> jsonOutput fl \<longrightarrow>
             Stderr ''Error: EVM_PRIVATE_KEY is required for Step 2 (payment).''
               \<in> set (trace (main_run w fl)))"
proof -
  from main_run_probe [OF assms(1)] obtain result tr where
    m: "main_run w fl = after_probe w fl (probe_request fl) result tr resp"
    and n: "filter is_network_call tr = [SendProbe (probe_request fl)]"
    and s: "filter is_signer_call tr = []"
    by blast
  from after_probe_gate [OF assms(2,3)] obtain result' tr' where
    g: "after_probe w fl (probe_request fl) result tr resp
          = confirmation_gate w fl (probe_request fl) (resp_Body resp) result' tr'"
    and n': "filter is_network_call tr' = filter is_network_call tr"
    and s': "filter is_signer_call tr' = filter is_signer_call tr"
    by blast
  from confirmation_gate_open [OF assms(5)] obtain tr'' where
    p: "confirmation_gate w fl (probe_request fl) (resp_Body resp) result' tr'
          = payment_phase w fl (probe_request fl) result' tr''"
    and n'': "filter is_network_call tr'' = filter is_network_call tr'"
    and s'': "filter is_signer_call tr'' = filter is_signer_call tr'"
    by blast
  show ?thesis
    unfolding m g p using n n' n'' s s' s''
    by (simp add: payment_phase_no_key [OF assms(4)])
qed

theorem missing_credential_after_gate_witness:
  "exit_code (main_run (specimen_world\<lparr>EVM_PRIVATE_KEY := []\<rparr>) specimen_flags) = 1
   \<and> Stderr ''Error: EVM_PRIVATE_KEY is required for Step 2 (payment).''
        \<in> set (trace (main_run (specimen_world\<lparr>EVM_PRIVATE_KEY := []\<rparr>) specimen_flags))
   \<and> exit_code (main_run (specimen_world\<lparr>EVM_PRIVATE_KEY := []\<rparr>) (specimen_flags\<lparr>jsonOutput := True\<rparr>)) = 1
   \<and> Status (final (main_run (specimen_world\<lparr>EVM_PRIVATE_KEY := []\<rparr>) (specimen_flags\<lparr>jsonOutput := True\<rparr>)))
        = ''error''
   \<and> filter is_signer_call
        (trace (main_run (specimen_world\<lparr>EVM_PRIVATE_KEY := []\<rparr>) (specimen_flags\<lparr>jsonOutput := True\<rparr>))) = []"
proof -
  let ?w = "specimen_world\<lparr>EVM_PRIVATE_KEY := []\<rparr>"
  let ?f = "specimen_flags\<lparr>jsonOutput := True\<rparr>"
  have a: "probe_answer ?w ?f = Some answer_402"
    by (simp add: probe_answer_def probe_request_def specimen_world_def specimen_flags_def answer_402_def)
  have b: "resp_StatusCode answer_402 = 402" by (simp add: answer_402_def)
  have c: "\<not> skipVerify ?f" by (simp add: specimen_flags_def)
  have d: "EVM_PRIVATE_KEY ?w = []" by simp
  have e: "gate_open ?w ?f" by (simp add: gate_open_def specimen_flags_def)
  have f: "jsonOutput ?f" by simp
  have a': "probe_answer ?w specimen_flags = Some answer_402"
    by (simp add: probe_answer_def probe_request_def specimen_world_def specimen_flags_def answer_402_def)
  have c': "\<not> skipVerify specimen_flags" by (simp add: specimen_flags_def)
  have e': "gate_open ?w specimen_flags" by (simp add: gate_open_def specimen_flags_def)
  have f': "\<not> jsonOutput specimen_flags" by (simp add: specimen_flags_def)
  show ?thesis
    using missing_credential_after_gate [OF a b c d e] f
      missing_credential_after_gate [OF a' b c' d e'] f'
    by simp
qed


section \<open>Results on payment headers and on the wallet command\<close>

lemma decode_e30: "base64_DecodeString ''e30='' = Some ''{}''"
  by code_simp

lemma decode_bad: "base64_DecodeString ''%%%'' = None"
  by code_simp


text \<open>
  C7. Whenever the probe is answered with status 402 and carries a payment-requirements
  header, the probe outcome has payment-required set. If the header decodes as base64,
  the decoded document is attached, and it is not empty (for a header value that is not
  made of line breaks only, as no header value is). If the header does not decode, the
  requirements are absent and the run goes on as after any other 402 answer: its exit
  code is the one it would have had with a header that decodes.
\<close>

theorem probe_402_requirements:
  assumes "probe_answer w fl = Some resp" and "resp_StatusCode resp = 402"
    and "Header_Get (resp_Header resp) ''PAYMENT-REQUIRED'' \<noteq> []"
  shows "\<exists>p. Probe (final (main_run w fl)) = Some p \<and> PaymentRequired p
           \<and> (\<forall>d. base64_DecodeString (Header_Get (resp_Header resp) ''PAYMENT-REQUIRED'') = Some d
                  \<longrightarrow> PaymentRequirements p = Some d
                      \<and> (\<not> set (Header_Get (resp_Header resp) ''PAYMENT-REQUIRED'')
                              \<subseteq> {char_of (13 :: nat), char_of (10 :: nat)} \<longrightarrow> d \<noteq> []))
           \<and> (base64_DecodeString (Header_Get (resp_Header resp) ''PAYMENT-REQUIRED'') = None
                  \<longrightarrow> PaymentRequirements p = None
                      \<and> (\<forall>resp'. resp_StatusCode resp' = 402 \<longrightarrow>
                            exit_code (main_run w fl)
                              = exit_code (main_run (w\<lparr>plain_Do := \<lambda>r. Inr resp'\<rparr>) fl)))"
proof -
  let ?p = "build_probe resp"
  let ?h = "Header_Get (resp_Header resp) ''PAYMENT-REQUIRED''"
  have p: "Probe (final (main_run w fl)) = Some ?p" by (rule main_run_Probe [OF assms(1)])
  have r: "PaymentRequired ?p" using assms(2) by (simp add: build_probe_simps)
  have d: "PaymentRequirements ?p = base64_DecodeString ?h"
    by (rule build_probe_decoded [OF assms(3)])
  have ok: "\<forall>d. base64_DecodeString ?h = Some d
                  \<longrightarrow> PaymentRequirements ?p = Some d
                      \<and> (\<not> set ?h \<subseteq> {char_of (13 :: nat), char_of (10 :: nat)} \<longrightarrow> d \<noteq> [])"
    using d base64_nonempty by auto
  have ex: "\<forall>resp'. resp_StatusCode resp' = 402 \<longrightarrow>
              exit_code (main_run w fl) = exit_code (main_run (w\<lparr>plain_Do := \<lambda>r. Inr resp'\<rparr>) fl)"
    using main_run_exit_by_status [OF assms(1)] assms(2) by simp
  from p r d ok ex show ?thesis by (intro exI [of _ ?p]) simp
qed


theorem probe_402_requirements_witness:
  "(\<exists>p. Probe (final (main_run specimen_world specimen_flags)) = Some p \<and> PaymentRequired p
        \<and> PaymentRequirements p = Some ''{}'')
   \<and> (\<exists>p. Probe (final (main_run (specimen_world\<lparr>plain_Do := \<lambda>r. Inr answer_402_undecodable\<rparr>)
                              specimen_flags)) = Some p
          \<and> PaymentRequired p \<and> PaymentRequirements p = None)
   \<and> exit_code (main_run (specimen_world\<lparr>plain_Do := \<lambda>r. Inr answer_402_undecodable\<rparr>) specimen_flags)
       = exit_code (main_run (specimen_world\<lparr>plain_Do := \<lambda>r. Inr answer_402\<rparr>) specimen_flags)"
proof -
  have b: "resp_StatusCode answer_402 = 402" by (simp add: answer_402_def)
  have h: "Header_Get (resp_Header answer_402) ''PAYMENT-REQUIRED'' = ''e30=''"
    by (simp add: answer_402_def Header_Get_def)
  have h0: "Header_Get (resp_Header answer_402) ''PAYMENT-REQUIRED'' \<noteq> []" by (simp add: h)
  have a': "probe_answer (specimen_world\<lparr>plain_Do := \<lambda>r. Inr answer_402_undecodable\<rparr>) specimen_flags
              = Some answer_402_undecodable"
    by (rule specimen_probe_upd)
  have b': "resp_StatusCode answer_402_undecodable = 402" by (simp add: answer_402_undecodable_def)
  have h': "Header_Get (resp_Header answer_402_undecodable) ''PAYMENT-REQUIRED'' = ''%%%''"
    by (simp add: answer_402_undecodable_def Header_Get_def)
  have h0': "Header_Get (resp_Header answer_402_undecodable) ''PAYMENT-REQUIRED'' \<noteq> []"
    by (simp add: h')
  have u: "(specimen_world\<lparr>plain_Do := \<lambda>r. Inr answer_402_undecodable\<rparr>)\<lparr>plain_Do := \<lambda>r. Inr answer_402\<rparr>
             = specimen_world\<lparr>plain_Do := \<lambda>r. Inr answer_402\<rparr>"
    by simp
  from probe_402_requirements [OF specimen_probe b h0]
  have 1: "\<exists>p. Probe (final (main_run specimen_world specimen_flags)) = Some p \<and> PaymentRequired p
        \<and> PaymentRequirements p = Some ''{}''"
    by (auto simp: h decode_e30)
  from probe_402_requirements [OF a' b' h0']
  obtain p where p: "Probe (final (main_run (specimen_world\<lparr>plain_Do := \<lambda>r. Inr answer_402_undecodable\<rparr>)
                              specimen_flags)) = Some p" "PaymentRequired p"
     "PaymentRequirements p = None"
     "\<forall>resp'. resp_StatusCode resp' = 402 \<longrightarrow>
         exit_code (main_run (specimen_world\<lparr>plain_Do := \<lambda>r. Inr answer_402_undecodable\<rparr>) specimen_flags)
          = exit_code (main_run ((specimen_world\<lparr>plain_Do := \<lambda>r. Inr answer_402_undecodable\<rparr>)
                                   \<lparr>plain_Do := \<lambda>r. Inr resp'\<rparr>) specimen_flags)"
    by (auto simp: h' decode_bad)
  from p(4) b have 3: "exit_code (main_run (specimen_world\<lparr>plain_Do := \<lambda>r. Inr answer_402_undecodable\<rparr>) specimen_flags)
       = exit_code (main_run (specimen_world\<lparr>plain_Do := \<lambda>r. Inr answer_402\<rparr>) specimen_flags)"
    unfolding u [symmetric] by blast
  from 1 p(1,2,3) 3 show ?thesis by blast
qed







text \<open>
  C9. Whenever the RPC reply has no error and its result, after the \<open>0x\<close> prefix, is
  empty or all zeros, the balance query returns the raw value \<open>0\<close> and no error; and
  the human string of the atomic amount \<open>0\<close> at six decimals is \<open>0.000000\<close>. The
  human string the query itself returns is that one, except for the empty payload and the
  single digit \<open>0\<close>, which the query answers early with the human string \<open>0\<close>.
\<close>

theorem zero_payload_is_zero_balance:
  assumes "rpc_post w rpcURL contractAddr (balanceOf_callData walletAddr) = Reply res None"
      and "set (TrimPrefix res ''0x'') \<subseteq> {CHR ''0''}"
  shows "snd (queryUSDCBalance w rpcURL contractAddr walletAddr) =
           Balance_of (if TrimPrefix res ''0x'' = [] \<or> TrimPrefix res ''0x'' = ''0''
                       then ''0'' else ''0.000000'') ''0''
         \<and> atomicToHuman ''0'' 6 = Inr ''0.000000''"
  using zero_payload [OF assms] atomicToHuman_zero_6 by simp

theorem zero_payload_is_zero_balance_witness:
  "snd (queryUSDCBalance (specimen_world\<lparr>rpc_post := \<lambda>u c d. Reply ''0x0000'' None\<rparr>)
          ''u'' ''c'' ''0xAbCd'') = Balance_of ''0.000000'' ''0''
   \<and> snd (queryUSDCBalance (specimen_world\<lparr>rpc_post := \<lambda>u c d. Reply ''0x'' None\<rparr>)
          ''u'' ''c'' ''0xAbCd'') = Balance_of ''0'' ''0''"
proof -
  have a: "rpc_post (specimen_world\<lparr>rpc_post := \<lambda>u c d. Reply ''0x0000'' None\<rparr>) ''u'' ''c''
             (balanceOf_callData ''0xAbCd'') = Reply ''0x0000'' None" by simp
  have b: "TrimPrefix ''0x0000'' ''0x'' = ''0000''" by code_simp
  have c: "set (TrimPrefix ''0x0000'' ''0x'') \<subseteq> {CHR ''0''}" by (simp add: b)
  have a': "rpc_post (specimen_world\<lparr>rpc_post := \<lambda>u c d. Reply ''0x'' None\<rparr>) ''u'' ''c''
             (balanceOf_callData ''0xAbCd'') = Reply ''0x'' None" by simp
  have b': "TrimPrefix ''0x'' ''0x'' = []" by code_simp
  have c': "set (TrimPrefix ''0x'' ''0x'') \<subseteq> {CHR ''0''}" by (simp add: b')
  show ?thesis
    using zero_payload_is_zero_balance [OF a c] zero_payload_is_zero_balance [OF a' c']
    by (simp add: b b')
qed

lemma runWalletCmd_unknown_network:
  assumes "EVM_PRIVATE_KEY w \<noteq> []"
    and "NewClientSignerFromPrivateKey w (EVM_PRIVATE_KEY w) = Inr address"
    and "network \<noteq> []" and "map_of networks network = None"
  shows "wallet_exit (runWalletCmd w network jsonOut) = 0"
    and "filter is_network_call (wallet_trace (runWalletCmd w network jsonOut)) = []"
    and "jsonOut \<Longrightarrow> wallet_trace (runWalletCmd w network jsonOut)
           = [ConstructSigner (EVM_PRIVATE_KEY w),
              StdoutWalletJSON \<lparr>Address = address, Balances = [],
                                wallet_Error = ''unknown network: '' @ network\<rparr>]"
  using assms by (simp_all add: runWalletCmd_def runWallet_def Let_def)

text \<open>
  C4 asks for a non-zero exit status when the wallet command names a network that is not
  in the registry. The name \<open>foo\<close> is not in the registry; the command reports it, in
  JSON mode in the error field of the one record it prints, issues no network call, and
  returns to \<^verbatim>\<open>main\<close>, which returns: the exit status is 0 in both modes.
\<close>

theorem unknown_network_exit_status:
  "map_of networks ''foo'' = None
   \<and> wallet_exit (runWalletCmd specimen_world ''foo'' True) = 0
   \<and> wallet_exit (runWalletCmd specimen_world ''foo'' False) = 0
   \<and> wallet_Error (wallet_final (runWalletCmd specimen_world ''foo'' True)) = ''unknown network: foo''
   \<and> filter is_network_call (wallet_trace (runWalletCmd specimen_world ''foo'' True)) = []"
  by code_simp

subsection \<open>The entry of one network, from the answer to its call\<close>

lemma network_reply_PostFailed:
  "network_rpc w address ni = PostFailed m \<Longrightarrow>
     network_reply w address ni = Failed (''rpc call failed: '' @ m)"
  by (simp add: network_reply_def network_rpc_def queryUSDCBalance_def Let_def)

lemma network_reply_InvalidResponse:
  "network_rpc w address ni = InvalidResponse \<Longrightarrow>
     network_reply w address ni = Failed ''invalid rpc response''"
  by (simp add: network_reply_def network_rpc_def queryUSDCBalance_def Let_def)

lemma network_reply_error:
  "network_rpc w address ni = Reply res (Some m) \<Longrightarrow>
     network_reply w address ni = Failed (''rpc error: '' @ m)"
  by (simp add: network_reply_def network_rpc_def queryUSDCBalance_def Let_def)

lemma network_reply_bad_hex:
  assumes "network_rpc w address ni = Reply res None"
    and "TrimPrefix res ''0x'' \<noteq> []" and "TrimPrefix res ''0x'' \<noteq> ''0''"
    and "hex_DecodeString (padHexLeft (TrimPrefix res ''0x'')) = None"
  shows "network_reply w address ni = Failed (''invalid hex: '' @ TrimPrefix res ''0x'')"
  using assms by (simp add: network_reply_def network_rpc_def queryUSDCBalance_def Let_def)

lemma network_reply_early:
  assumes "network_rpc w address ni = Reply res None"
    and "TrimPrefix res ''0x'' = [] \<or> TrimPrefix res ''0x'' = ''0''"
  shows "network_reply w address ni = Balance_of ''0'' ''0''"
  using assms by (auto simp add: network_reply_def network_rpc_def queryUSDCBalance_def Let_def)

lemma network_reply_decoded:
  assumes "network_rpc w address ni = Reply res None"
    and "TrimPrefix res ''0x'' \<noteq> []" and "TrimPrefix res ''0x'' \<noteq> ''0''"
    and "hex_DecodeString (padHexLeft (TrimPrefix res ''0x'')) = Some bs"
  shows "\<exists>human. atomicToHuman (Int_String (SetBytes bs)) 6 = Inr human
           \<and> network_reply w address ni = Balance_of human (Int_String (SetBytes bs))"
proof -
  obtain human where h: "atomicToHuman (Int_String (SetBytes bs)) 6 = Inr human"
    using atomicToHuman_SetBytes by blast
  with assms have "network_reply w address ni = Balance_of human (Int_String (SetBytes bs))"
    by (simp add: network_reply_def network_rpc_def queryUSDCBalance_def Let_def)
  with h show ?thesis by blast
qed

lemma network_entry_fields:
  "Network (network_entry w address ni) = fst ni"
  "entry_ChainID (network_entry w address ni) = ChainID (snd ni)"
  "Asset (network_entry w address ni) = ''USDC''"
  by (simp_all add: network_entry_def split: balance_result.splits)

lemma network_entry_cases:
  "(\<forall>m. network_rpc w address ni = PostFailed m \<longrightarrow>
        Balance (network_entry w address ni) = ''error''
        \<and> Raw (network_entry w address ni) = ''rpc call failed: '' @ m)
   \<and> (network_rpc w address ni = InvalidResponse \<longrightarrow>
        Balance (network_entry w address ni) = ''error''
        \<and> Raw (network_entry w address ni) = ''invalid rpc response'')
   \<and> (\<forall>res m. network_rpc w address ni = Reply res (Some m) \<longrightarrow>
        Balance (network_entry w address ni) = ''error''
        \<and> Raw (network_entry w address ni) = ''rpc error: '' @ m)
   \<and> (\<forall>res. network_rpc w address ni = Reply res None
          \<and> TrimPrefix res ''0x'' \<noteq> [] \<and> TrimPrefix res ''0x'' \<noteq> ''0''
          \<and> hex_DecodeString (padHexLeft (TrimPrefix res ''0x'')) = None \<longrightarrow>
        Balance (network_entry w address ni) = ''error''
        \<and> Raw (network_entry w address ni) = ''invalid hex: '' @ TrimPrefix res ''0x'')
   \<and> (\<forall>res bs. network_rpc w address ni = Reply res None
          \<and> TrimPrefix res ''0x'' \<noteq> [] \<and> TrimPrefix res ''0x'' \<noteq> ''0''
          \<and> hex_DecodeString (padHexLeft (TrimPrefix res ''0x'')) = Some bs \<longrightarrow>
        Raw (network_entry w address ni) = Int_String (SetBytes bs)
        \<and> atomicToHuman (Int_String (SetBytes bs)) 6 = Inr (Balance (network_entry w address ni))
        \<and> entry_Decimals (network_entry w address ni) = Decimals (snd ni))
   \<and> (\<forall>res. network_rpc w address ni = Reply res None
          \<and> (TrimPrefix res ''0x'' = [] \<or> TrimPrefix res ''0x'' = ''0'') \<longrightarrow>
        Balance (network_entry w address ni) = ''0'' \<and> Raw (network_entry w address ni) = ''0'')"
proof (intro conjI allI impI)
  fix m assume "network_rpc w address ni = PostFailed m"
  from network_reply_PostFailed [OF this]
  show "Balance (network_entry w address ni) = ''error''"
    and "Raw (network_entry w address ni) = ''rpc call failed: '' @ m"
    by (simp_all add: network_entry_def)
next
  assume "network_rpc w address ni = InvalidResponse"
  from network_reply_InvalidResponse [OF this]
  show "Balance (network_entry w address ni) = ''error''"
    and "Raw (network_entry w address ni) = ''invalid rpc response''"
    by (simp_all add: network_entry_def)
next
  fix res m assume "network_rpc w address ni = Reply res (Some m)"
  from network_reply_error [OF this]
  show "Balance (network_entry w address ni) = ''error''"
    and "Raw (network_entry w address ni) = ''rpc error: '' @ m"
    by (simp_all add: network_entry_def)
next
  fix res
  assume a: "network_rpc w address ni = Reply res None
          \<and> TrimPrefix res ''0x'' \<noteq> [] \<and> TrimPrefix res ''0x'' \<noteq> ''0''
          \<and> hex_DecodeString (padHexLeft (TrimPrefix res ''0x'')) = None"
  then have "network_reply w address ni = Failed (''invalid hex: '' @ TrimPrefix res ''0x'')"
    using network_reply_bad_hex [of w address ni res] by blast
  then show "Balance (network_entry w address ni) = ''error''"
    and "Raw (network_entry w address ni) = ''invalid hex: '' @ TrimPrefix res ''0x''"
    by (simp_all add: network_entry_def)
next
  fix res bs
  assume a: "network_rpc w address ni = Reply res None
          \<and> TrimPrefix res ''0x'' \<noteq> [] \<and> TrimPrefix res ''0x'' \<noteq> ''0''
          \<and> hex_DecodeString (padHexLeft (TrimPrefix res ''0x'')) = Some bs"
  then have "\<exists>human. atomicToHuman (Int_String (SetBytes bs)) 6 = Inr human
           \<and> network_reply w address ni = Balance_of human (Int_String (SetBytes bs))"
    using network_reply_decoded [of w address ni res bs] by blast
  then obtain human where h: "atomicToHuman (Int_String (SetBytes bs)) 6 = Inr human"
    and r: "network_reply w address ni = Balance_of human (Int_String (SetBytes bs))"
    by blast
  from h r show "Raw (network_entry w address ni) = Int_String (SetBytes bs)"
    and "atomicToHuman (Int_String (SetBytes bs)) 6 = Inr (Balance (network_entry w address ni))"
    and "entry_Decimals (network_entry w address ni) = Decimals (snd ni)"
    by (simp_all add: network_entry_def)
next
  fix res
  assume a: "network_rpc w address ni = Reply res None
          \<and> (TrimPrefix res ''0x'' = [] \<or> TrimPrefix res ''0x'' = ''0'')"
  then have "network_reply w address ni = Balance_of ''0'' ''0''"
    using network_reply_early [of w address ni res] by blast
  then show "Balance (network_entry w address ni) = ''0''"
    and "Raw (network_entry w address ni) = ''0''"
    by (simp_all add: network_entry_def)
qed

subsection \<open>The specimen wallet\<close>

lemma specimen_range_networks:
  "map fst (range_networks specimen_world) = [''base-sepolia'', ''base'', ''avalanche'', ''avalanche-fuji'']"
  by code_simp

lemma specimen_rpc_0:
  "network_rpc specimen_world ''0xAbCd'' (range_networks specimen_world ! 0) = PostFailed ''timeout''"
  by code_simp

lemma specimen_rpc_1:
  "network_rpc specimen_world ''0xAbCd'' (range_networks specimen_world ! 1) = Reply ''0x64'' None"
  by code_simp

lemma specimen_rpc_2:
  "network_rpc specimen_world ''0xAbCd'' (range_networks specimen_world ! 2) = InvalidResponse"
  by code_simp

lemma specimen_rpc_3:
  "network_rpc specimen_world ''0xAbCd'' (range_networks specimen_world ! 3)
     = Reply [] (Some ''execution reverted'')"
  by code_simp

lemma specimen_rpc_bad_hex:
  "network_rpc (specimen_world\<lparr>rpc_post := \<lambda>u c d. Reply ''0xzz'' None\<rparr>) ''0xAbCd''
     (range_networks (specimen_world\<lparr>rpc_post := \<lambda>u c d. Reply ''0xzz'' None\<rparr>) ! 0)
     = Reply ''0xzz'' None"
  by code_simp

lemma specimen_payloads:
  "TrimPrefix ''0x64'' ''0x'' = ''64''"
  "hex_DecodeString (padHexLeft ''64'') = Some [100]"
  "Int_String (SetBytes [100]) = ''100''"
  "atomicToHuman ''100'' 6 = Inr ''0.0001''"
  "TrimPrefix ''0xzz'' ''0x'' = ''zz''"
  "hex_DecodeString (padHexLeft ''zz'') = None"
  by code_simp+

text \<open>
  C8. When the wallet command queries all networks, the loop never ends early: there is
  one entry per network, in the order of enumeration, and one JSON-RPC call per network,
  whatever the other calls returned. Each entry is decided by the answer to its own
  network's call alone. When the POST fails, the entry has \<open>error\<close> as its balance and
  \<open>rpc call failed:\<close> with the transport's text as its raw value; when the body is not
  a reply, \<open>invalid rpc response\<close>; when the reply carries an error object,
  \<open>rpc error:\<close> with its message; when the result is not hexadecimal, \<open>invalid hex:\<close>
  with the payload. When the result decodes, the raw value is the decimal text of the
  amount and the balance is its human string at six decimals; an empty payload or the
  single digit \<open>0\<close> gives balance and raw value \<open>0\<close>.
\<close>

theorem runWallet_isolates_failures:
  assumes "runWallet w address [] jsonOut = (result, tr, crashed)"
  shows "crashed = None
       \<and> length (Balances result) = length (range_networks w)
       \<and> filter is_rpc_call tr = map (network_post address) (range_networks w)
       \<and> (\<forall>i < length (range_networks w).
             Network (Balances result ! i) = fst (range_networks w ! i)
           \<and> entry_ChainID (Balances result ! i) = ChainID (snd (range_networks w ! i))
           \<and> Asset (Balances result ! i) = ''USDC''
           \<and> (\<forall>m. network_rpc w address (range_networks w ! i) = PostFailed m \<longrightarrow>
                  Balance (Balances result ! i) = ''error''
                  \<and> Raw (Balances result ! i) = ''rpc call failed: '' @ m)
           \<and> (network_rpc w address (range_networks w ! i) = InvalidResponse \<longrightarrow>
                  Balance (Balances result ! i) = ''error''
                  \<and> Raw (Balances result ! i) = ''invalid rpc response'')
           \<and> (\<forall>res m. network_rpc w address (range_networks w ! i) = Reply res (Some m) \<longrightarrow>
                  Balance (Balances result ! i) = ''error''
                  \<and> Raw (Balances result ! i) = ''rpc error: '' @ m)
           \<and> (\<forall>res. network_rpc w address (range_networks w ! i) = Reply res None
                    \<and> TrimPrefix res ''0x'' \<noteq> [] \<and> TrimPrefix res ''0x'' \<noteq> ''0''
                    \<and> hex_DecodeString (padHexLeft (TrimPrefix res ''0x'')) = None \<longrightarrow>
                  Balance (Balances result ! i) = ''error''
                  \<and> Raw (Balances result ! i) = ''invalid hex: '' @ TrimPrefix res ''0x'')
           \<and> (\<forall>res bs. network_rpc w address (range_networks w ! i) = Reply res None
                    \<and> TrimPrefix res ''0x'' \<noteq> [] \<and> TrimPrefix res ''0x'' \<noteq> ''0''
                    \<and> hex_DecodeString (padHexLeft (TrimPrefix res ''0x'')) = Some bs \<longrightarrow>
                  Raw (Balances result ! i) = Int_String (SetBytes bs)
                  \<and> atomicToHuman (Int_String (SetBytes bs)) 6 = Inr (Balance (Balances result ! i))
                  \<and> entry_Decimals (Balances result ! i) = Decimals (snd (range_networks w ! i)))
           \<and> (\<forall>res. network_rpc w address (range_networks w ! i) = Reply res None
                    \<and> (TrimPrefix res ''0x'' = [] \<or> TrimPrefix res ''0x'' = ''0'') \<longrightarrow>
                  Balance (Balances result ! i) = ''0'' \<and> Raw (Balances result ! i) = ''0''))"
proof -
  from assms have c: "crashed = None"
    and b: "Balances result = map (network_entry w address) (range_networks w)"
    and t: "tr = (if \<not> jsonOut then [Stdout (''Wallet:  '' @ address), Stdout []] else [])
      @ concat (map (network_events w address jsonOut) (range_networks w))
      @ (if jsonOut then [StdoutWalletJSON result] else [])"
    by (auto simp: runWallet_all)
  have len: "length (Balances result) = length (range_networks w)" by (simp add: b)
  have posts: "filter is_rpc_call tr = map (network_post address) (range_networks w)"
    by (simp add: t rpc_calls_of_loop)
  have nth: "Balances result ! i = network_entry w address (range_networks w ! i)"
    if "i < length (range_networks w)" for i
    using that by (simp add: b)
  show ?thesis
    apply (intro conjI)
       apply (rule c)
      apply (rule len)
     apply (rule posts)
    apply (intro allI impI)
    subgoal for i
      apply (simp only: nth)
      using network_entry_cases [of w address "range_networks w ! i"]
        network_entry_fields [of w address "range_networks w ! i"]
      by blast
    done
qed

theorem runWallet_isolates_failures_witness:
  "snd (snd (runWallet specimen_world ''0xAbCd'' [] True)) = None
   \<and> map Network (Balances (fst (runWallet specimen_world ''0xAbCd'' [] True)))
       = [''base-sepolia'', ''base'', ''avalanche'', ''avalanche-fuji'']
   \<and> map Balance (Balances (fst (runWallet specimen_world ''0xAbCd'' [] True)))
       = [''error'', ''0.0001'', ''error'', ''error'']
   \<and> map Raw (Balances (fst (runWallet specimen_world ''0xAbCd'' [] True)))
       = [''rpc call failed: timeout'', ''100'', ''invalid rpc response'',
          ''rpc error: execution reverted'']
   \<and> Balance (Balances (fst (runWallet (specimen_world\<lparr>rpc_post := \<lambda>u c d. Reply ''0xzz'' None\<rparr>)
                                ''0xAbCd'' [] True)) ! 0) = ''error''
   \<and> Raw (Balances (fst (runWallet (specimen_world\<lparr>rpc_post := \<lambda>u c d. Reply ''0xzz'' None\<rparr>)
                            ''0xAbCd'' [] True)) ! 0) = ''invalid hex: zz''"
proof -
  let ?R = "runWallet specimen_world ''0xAbCd'' [] True"
  let ?w' = "specimen_world\<lparr>rpc_post := \<lambda>u c d. Reply ''0xzz'' None\<rparr>"
  let ?R' = "runWallet ?w' ''0xAbCd'' [] True"
  let ?B = "Balances (fst ?R)"
  have eq: "?R = (fst ?R, fst (snd ?R), snd (snd ?R))" by simp
  have eq': "?R' = (fst ?R', fst (snd ?R'), snd (snd ?R'))" by simp
  note T = runWallet_isolates_failures [OF eq]
  note T' = runWallet_isolates_failures [OF eq']
  note E = T [THEN conjunct2, THEN conjunct2, THEN conjunct2, rule_format]
  note E' = T' [THEN conjunct2, THEN conjunct2, THEN conjunct2, rule_format]
  have n: "length (range_networks specimen_world) = 4"
    using arg_cong [OF specimen_range_networks, of length] by simp
  have n': "length (range_networks ?w') = 4"
    using n by (simp add: range_networks_def)
  have names: "\<And>i. i < 4 \<Longrightarrow> fst (range_networks specimen_world ! i)
                 = [''base-sepolia'', ''base'', ''avalanche'', ''avalanche-fuji''] ! i"
    using specimen_range_networks n by (metis nth_map)
  from T have c: "snd (snd ?R) = None" by blast
  from T n have len: "length ?B = 4" by simp
  from E [of 0] n have e0: "Network (?B ! 0) = fst (range_networks specimen_world ! 0)
        \<and> Balance (?B ! 0) = ''error'' \<and> Raw (?B ! 0) = ''rpc call failed: '' @ ''timeout''"
    using specimen_rpc_0 by simp
  from E [of 1] n have e1: "Network (?B ! 1) = fst (range_networks specimen_world ! 1)
        \<and> Raw (?B ! 1) = Int_String (SetBytes [100])
        \<and> atomicToHuman (Int_String (SetBytes [100])) 6 = Inr (Balance (?B ! 1))"
    using specimen_rpc_1 specimen_payloads(1,2) by simp
  from E [of 2] n have e2: "Network (?B ! 2) = fst (range_networks specimen_world ! 2)
        \<and> Balance (?B ! 2) = ''error'' \<and> Raw (?B ! 2) = ''invalid rpc response''"
    using specimen_rpc_2 by simp
  from E [of 3] n have e3: "Network (?B ! 3) = fst (range_networks specimen_world ! 3)
        \<and> Balance (?B ! 3) = ''error'' \<and> Raw (?B ! 3) = ''rpc error: '' @ ''execution reverted''"
    using specimen_rpc_3 by simp
  from E' [of 0] n' have e': "Balance (Balances (fst ?R') ! 0) = ''error''
        \<and> Raw (Balances (fst ?R') ! 0) = ''invalid hex: '' @ ''zz''"
    using specimen_rpc_bad_hex specimen_payloads(5,6) by simp
  from e1 have b1: "Balance (?B ! 1) = ''0.0001''" and r1: "Raw (?B ! 1) = ''100''"
    by (simp_all add: specimen_payloads(3,4))
  have four: "xs = [xs ! 0, xs ! 1, xs ! 2, xs ! 3]" if "length xs = 4" for xs :: "'a list"
    using that by (auto simp: list_eq_iff_nth_eq nth_Cons' numeral_eq_Suc less_Suc_eq)
  have B: "?B = [?B ! 0, ?B ! 1, ?B ! 2, ?B ! 3]" by (rule four [OF len])
  have "map Network ?B = [''base-sepolia'', ''base'', ''avalanche'', ''avalanche-fuji'']"
    by (subst B) (use e0 e1 e2 e3 names [of 0] names [of 1] names [of 2] names [of 3] in simp)
  moreover have "map Balance ?B = [''error'', ''0.0001'', ''error'', ''error'']"
    by (subst B) (use e0 b1 e2 e3 in simp)
  moreover have "map Raw ?B = [''rpc call failed: timeout'', ''100'', ''invalid rpc response'',
          ''rpc error: execution reverted'']"
    by (subst B) (use e0 r1 e2 e3 in simp)
  ultimately show ?thesis using c e' by simp
qed

end
